theory Spec2Isabelle
  imports Main "HOL-Library.Sublist"
begin

section \<open>JavaScript strings and values\<close>

text \<open>
  A JavaScript string is modelled as a HOL \<open>string\<close>: a list of 8-bit characters, read as
  the code units U+0000 to U+00FF. Code units above U+00FF are outside the model.
  \<open>isSpace\<close> is the class that \<^verbatim>\<open>String.prototype.trim\<close> strips and that the regular
  expression class \<^verbatim>\<open>\s\<close> matches (white space and line terminators), on that range.
\<close>

definition isSpace :: "char \<Rightarrow> bool" where
  "isSpace c = (of_char c \<in> {9, 10, 11, 12, 13, 32, 160 :: nat})"

definition trim :: "string \<Rightarrow> string" where
  "trim s = rev (dropWhile isSpace (rev (dropWhile isSpace s)))"

definition isUpper :: "char \<Rightarrow> bool" where
  "isUpper c = (let n = of_char c :: nat in
     (65 \<le> n \<and> n \<le> 90) \<or> (192 \<le> n \<and> n \<le> 214) \<or> (216 \<le> n \<and> n \<le> 222))"

text \<open>
  \<^verbatim>\<open>toLowerCase\<close> adds 32 to the code of an upper-case letter (A to Z, and the upper-case
  letters of U+00C0 to U+00DE); in each of them bit 5 is clear, so adding 32 sets that bit.
\<close>

definition toLowerChar :: "char \<Rightarrow> char" where
  "toLowerChar c = (if isUpper c
     then Char (digit0 c) (digit1 c) (digit2 c) (digit3 c) (digit4 c) True (digit6 c) (digit7 c)
     else c)"

definition toLowerCase :: "string \<Rightarrow> string" where
  "toLowerCase s = map toLowerChar s"

fun startsWith :: "string \<Rightarrow> string \<Rightarrow> bool" where
  "startsWith s [] = True"
| "startsWith [] (p # ps) = False"
| "startsWith (c # cs) (p # ps) = (c = p \<and> startsWith cs ps)"

fun join :: "string \<Rightarrow> string list \<Rightarrow> string" where
  "join sep [] = []"
| "join sep [x] = x"
| "join sep (x # y # ys) = x @ sep @ join sep (y # ys)"

text \<open>\<^verbatim>\<open>x || d\<close> on a string that may be undefined: the empty string is falsy too.\<close>

definition orElse :: "string option \<Rightarrow> string \<Rightarrow> string" where
  "orElse x d = (case x of None \<Rightarrow> d | Some s \<Rightarrow> if s = [] then d else s)"

text \<open>
  The values \<^verbatim>\<open>JSON.parse\<close> returns. An object is an association list in the order
  of its own properties. A number is held as an integer; a number that is not an integer
  is outside the model, and the routes and the store only test a number for being zero.
  A JavaScript value that may be \<^verbatim>\<open>undefined\<close> is a \<open>json option\<close>, with \<open>None\<close>
  for \<^verbatim>\<open>undefined\<close>.
\<close>

datatype json =
    JNull
  | JBool bool
  | JNum int
  | JStr string
  | JArr "json list"
  | JObj "(string \<times> json) list"

text \<open>
  Reading a property \<^verbatim>\<open>v.k\<close>, for the names the sources read (\<^verbatim>\<open>login\<close>,
  \<^verbatim>\<open>name\<close>, \<^verbatim>\<open>email\<close>, \<^verbatim>\<open>mcpConfig\<close>), none of which is a property of a
  string, number, boolean or array: \<open>None\<close> when the read throws a TypeError (the value is
  \<^verbatim>\<open>null\<close>), otherwise the property's value or \<^verbatim>\<open>undefined\<close>.
\<close>

fun getProp :: "json \<Rightarrow> string \<Rightarrow> json option option" where
  "getProp JNull k = None"
| "getProp (JObj kvs) k = Some (map_of kvs k)"
| "getProp v k = Some None"

fun truthy :: "json option \<Rightarrow> bool" where
  "truthy None = False"
| "truthy (Some JNull) = False"
| "truthy (Some (JBool b)) = b"
| "truthy (Some (JNum n)) = (n \<noteq> 0)"
| "truthy (Some (JStr s)) = (s \<noteq> [])"
| "truthy (Some (JArr vs)) = True"
| "truthy (Some (JObj kvs)) = True"

definition js_or :: "json option \<Rightarrow> json option \<Rightarrow> json option" where
  "js_or a b = (if truthy a then a else b)"

section \<open>What the code takes from its runtime\<close>

text \<open>
  One call of \<^verbatim>\<open>execSync\<close>: the command line, the environment and the working directory.
\<close>

record spawn =
  fullCommand :: string
  fullEnv :: "string \<rightharpoonup> string"
  workingDir :: string

text \<open>
  \<^verbatim>\<open>execSync\<close> returns the captured standard output, or throws an error object of which
  the code reads \<^verbatim>\<open>stdout\<close> and \<^verbatim>\<open>message\<close>.
\<close>

datatype exec_outcome =
    Returned string
  | Threw "string option" "string option"

text \<open>A request passed to \<^verbatim>\<open>fetch\<close>, and what \<^verbatim>\<open>fetch\<close> settles to.\<close>

record request =
  url :: string
  httpMethod :: string
  headers :: "(string \<times> string) list"
  body :: "string option"

record response =
  ok :: bool
  status :: nat
  statusText :: string
  bodyText :: string

datatype fetch_outcome =
    Rejected string
  | Resolved response

text \<open>
  What the code takes from the JavaScript runtime it runs in. \<open>execSync\<close> is given the
  calls made before, so that the same command line may have different outcomes at different
  times. \<open>child_process\<close> is \<open>None\<close> when \<^verbatim>\<open>await import('child_process')\<close>
  resolves, and the thrown error (its \<^verbatim>\<open>stdout\<close> and \<^verbatim>\<open>message\<close>) otherwise.
  \<open>JSON_parse\<close> is \<open>None\<close> where \<^verbatim>\<open>JSON.parse\<close> throws a SyntaxError, whose
  message is \<open>syntaxError\<close> of the text. \<open>typeError\<close> is the message of the TypeError
  thrown by reading the named property of \<^verbatim>\<open>null\<close>. \<open>isBrowser\<close> is
  \<^verbatim>\<open>typeof window !== 'undefined'\<close>. \<open>Rejected\<close> carries the message of the error
  a rejected \<^verbatim>\<open>fetch\<close> throws.
\<close>

record runtime =
  execSync :: "spawn list \<Rightarrow> spawn \<Rightarrow> exec_outcome"
  child_process :: "(string option \<times> string option) option"
  process_env :: "string \<rightharpoonup> string"
  JSON_parse :: "string \<Rightarrow> json option"
  JSON_stringify :: "json \<Rightarrow> string"
  syntaxError :: "string \<Rightarrow> string"
  typeError :: "string \<Rightarrow> string"
  isBrowser :: bool
  fetch :: "request \<Rightarrow> fetch_outcome"

section \<open>The exec route (api.github-cli-exec.ts)\<close>

record cli_config =
  path :: string
  cwd :: string

datatype platform = windows | linux | macos

fun GITHUB_CLI_CONFIG :: "platform \<Rightarrow> cli_config" where
  "GITHUB_CLI_CONFIG windows = \<lparr>
     path = ''C:'' @ CHR 0x5C # ''users'' @ CHR 0x5C # ''neal7'' @ CHR 0x5C # ''devtools''
            @ CHR 0x5C # ''github cli'' @ CHR 0x5C # ''bin'' @ CHR 0x5C # ''gh.exe'',
     cwd = ''C:'' @ CHR 0x5C # ''users'' @ CHR 0x5C # ''neal7'' @ CHR 0x5C # ''devtools''
            @ CHR 0x5C # ''github cli''\<rparr>"
| "GITHUB_CLI_CONFIG linux = \<lparr>path = ''/usr/local/bin/gh'', cwd = ''/home''\<rparr>"
| "GITHUB_CLI_CONFIG macos = \<lparr>path = ''/usr/local/bin/gh'', cwd = ''/Users''\<rparr>"

definition getPlatform :: platform where
  "getPlatform = windows"

text \<open>
  The request body, as the interface \<^verbatim>\<open>GitHubCLIExecRequest\<close> types it, its fields
  under the prefix \<open>req\<close>; an optional field is \<open>None\<close> when it is absent.
\<close>

record GitHubCLIExecRequest =
  req_command :: string
  req_args :: "string list option"
  req_env :: "(string \<rightharpoonup> string) option"
  req_cwd :: "string option"

text \<open>
  The defaults of \<^verbatim>\<open>const { command, args = [], env = {}, cwd } = body\<close>.
\<close>

definition argsOf :: "GitHubCLIExecRequest \<Rightarrow> string list" where
  "argsOf req = (case req_args req of None \<Rightarrow> [] | Some a \<Rightarrow> a)"

definition envOf :: "GitHubCLIExecRequest \<Rightarrow> (string \<rightharpoonup> string)" where
  "envOf req = (case req_env req of None \<Rightarrow> Map.empty | Some e \<Rightarrow> e)"

text \<open>
  The response, \<^verbatim>\<open>GitHubCLIExecResponse\<close>; \<open>outputText\<close> is its field
  \<^verbatim>\<open>output\<close>. The fields of \<^verbatim>\<open>user\<close> hold what the parsed object has under
  these names, which need not be strings.
\<close>

record user_info =
  login :: "json option"
  name :: "json option"

record GitHubCLIExecResponse =
  success :: bool
  command :: string
  outputText :: string
  error :: "string option"
  version :: "string option"
  user :: "user_info option"

text \<open>
  The helper \<^verbatim>\<open>executeGitHubCLICommand\<close> of the exec route. It returns the response and
  the list of \<^verbatim>\<open>execSync\<close> calls made so far.
\<close>

definition executeGitHubCLICommand ::
  "runtime \<Rightarrow> spawn list \<Rightarrow> string \<Rightarrow> string list \<Rightarrow> (string \<rightharpoonup> string) \<Rightarrow> string option
     \<Rightarrow> GitHubCLIExecResponse \<times> spawn list" where
  "executeGitHubCLICommand rt calls cmd args env cwd_opt =
    (let config = GITHUB_CLI_CONFIG getPlatform;
         dir = orElse cwd_opt (cwd config);
         failed = (\<lambda>(out, msg). \<lparr>success = False, command = cmd @ '' '' @ join '' '' args,
                     outputText = orElse out [],
                     error = Some (orElse msg ''Command execution failed''),
                     version = None, user = None\<rparr>)
     in case child_process rt of
          Some e \<Rightarrow> (failed e, calls)
        | None \<Rightarrow>
           (let call = \<lparr>fullCommand = [CHR 0x22] @ path config @ [CHR 0x22] @ '' '' @ cmd @ '' ''
                                         @ join '' '' args,
                        fullEnv = process_env rt ++ env,
                        workingDir = dir\<rparr>
            in case execSync rt calls call of
                 Returned out \<Rightarrow>
                   (\<lparr>success = True, command = cmd @ '' '' @ join '' '' args, outputText = trim out,
                     error = None, version = None, user = None\<rparr>, calls @ [call])
               | Threw out msg \<Rightarrow> (failed (out, msg), calls @ [call])))"

definition allowedCommands :: "string list" where
  "allowedCommands = [''version'', ''auth'', ''repo'', ''issue'', ''pr'', ''workflow'', ''api'',
                      ''gist'', ''secret'', ''ssh-key'']"

definition isAllowed :: "string \<Rightarrow> bool" where
  "isAllowed cmd = list_ex (\<lambda>c. startsWith (toLowerCase cmd) c) allowedCommands"

text \<open>
  The first match of the regular expression \<^verbatim>\<open>/gh version (\S+)/\<close>, its capture group:
  at the leftmost position where the literal text is followed by a character that is not
  white space, the longest run of such characters.
\<close>

fun match_gh_version :: "string \<Rightarrow> string option" where
  "match_gh_version [] = None"
| "match_gh_version (c # cs) =
     (if startsWith (c # cs) ''gh version ''
         \<and> takeWhile (\<lambda>x. \<not> isSpace x) (drop 11 (c # cs)) \<noteq> []
      then Some (takeWhile (\<lambda>x. \<not> isSpace x) (drop 11 (c # cs)))
      else match_gh_version cs)"

text \<open>
  The object literal \<^verbatim>\<open>{ login: userData.login, name: userData.name || userData.login }\<close>;
  \<open>None\<close> when reading \<^verbatim>\<open>userData.login\<close> throws.
\<close>

definition exec_user :: "json \<Rightarrow> user_info option" where
  "exec_user userData =
     (case getProp userData ''login'' of
        None \<Rightarrow> None
      | Some l \<Rightarrow>
         (case getProp userData ''name'' of
            None \<Rightarrow> None
          | Some n \<Rightarrow> Some \<lparr>login = l, name = js_or n l\<rparr>))"

text \<open>
  What \<^verbatim>\<open>action\<close> returns: \<open>MethodNotAllowed\<close> is the body
  \<^verbatim>\<open>{ success: false, error: 'Method not allowed' }\<close> with status 405, \<open>Json r\<close> is
  \<^verbatim>\<open>json(r)\<close> with the default status 200.
\<close>

datatype action_reply = MethodNotAllowed | Json GitHubCLIExecResponse

fun reply_status :: "action_reply \<Rightarrow> nat" where
  "reply_status MethodNotAllowed = 405"
| "reply_status (Json r) = 200"

text \<open>
  The route's \<^verbatim>\<open>action\<close>. The payload is \<open>Inl\<close> the message of the error that
  \<^verbatim>\<open>request.json()\<close> throws, or the request. The result is the reply and the list of
  \<^verbatim>\<open>execSync\<close> calls.
\<close>

definition action ::
  "runtime \<Rightarrow> spawn list \<Rightarrow> string \<Rightarrow> string + GitHubCLIExecRequest
     \<Rightarrow> action_reply \<times> spawn list" where
  "action rt calls method payload =
    (if method \<noteq> ''POST'' then (MethodNotAllowed, calls)
     else case payload of
       Inl msg \<Rightarrow>
         (Json \<lparr>success = False, command = [], outputText = [], error = Some msg,
                version = None, user = None\<rparr>, calls)
     | Inr req \<Rightarrow>
        (let cmd = req_command req;
             args = argsOf req;
             env = envOf req;
             cwd_opt = req_cwd req
         in if \<not> isAllowed cmd then
              (Json \<lparr>success = False, command = cmd @ '' '' @ join '' '' args, outputText = [],
                     error = Some (''Command '' @ [CHR 0x27] @ cmd @ [CHR 0x27]
                                     @ '' is not allowed for security reasons''),
                     version = None, user = None\<rparr>, calls)
            else if cmd = ''version'' then
              (case executeGitHubCLICommand rt calls cmd args env cwd_opt of
                 (result, calls1) \<Rightarrow>
                   (Json (if success result
                          then (case match_gh_version (outputText result) of
                                  Some v \<Rightarrow> result\<lparr>version := Some v\<rparr>
                                | None \<Rightarrow> result)
                          else result), calls1))
            else if startsWith cmd ''auth'' then
              (case executeGitHubCLICommand rt calls cmd args env cwd_opt of
                 (result, calls1) \<Rightarrow>
                   if cmd = ''auth status'' \<and> success result then
                     (case executeGitHubCLICommand rt calls1 ''api'' [''user''] env cwd_opt of
                        (userResult, calls2) \<Rightarrow>
                          (Json (if success userResult
                                 then (case JSON_parse rt (outputText userResult) of
                                         None \<Rightarrow> result
                                       | Some userData \<Rightarrow>
                                          (case exec_user userData of
                                             None \<Rightarrow> result
                                           | Some u \<Rightarrow> result\<lparr>user := Some u\<rparr>))
                                 else result), calls2))
                   else (Json result, calls1))
            else
              (case executeGitHubCLICommand rt calls cmd args env cwd_opt of
                 (result, calls1) \<Rightarrow> (Json result, calls1))))"

section \<open>The status route\<close>

text \<open>
  The status route has its own \<^verbatim>\<open>executeGitHubCLICommand\<close>, with the same
  \<^verbatim>\<open>GITHUB_CLI_CONFIG\<close> and \<^verbatim>\<open>getPlatform\<close>; it returns
  \<^verbatim>\<open>{ success, output, error? }\<close>.
\<close>

record cli_result =
  cli_success :: bool
  cli_output :: string
  cli_error :: "string option"

definition executeGitHubCLICommand_status ::
  "runtime \<Rightarrow> spawn list \<Rightarrow> string \<Rightarrow> string list \<Rightarrow> (string \<rightharpoonup> string)
     \<Rightarrow> cli_result \<times> spawn list" where
  "executeGitHubCLICommand_status rt calls cmd args env =
    (let config = GITHUB_CLI_CONFIG getPlatform;
         failed = (\<lambda>(stdout, msg). \<lparr>cli_success = False, cli_output = orElse stdout [],
                     cli_error = Some (orElse msg ''Command execution failed'')\<rparr>)
     in case child_process rt of
          Some e \<Rightarrow> (failed e, calls)
        | None \<Rightarrow>
           (let call = \<lparr>fullCommand = [CHR 0x22] @ path config @ [CHR 0x22] @ '' ''
                                         @ join '' '' args,
                        fullEnv = process_env rt ++ env,
                        workingDir = cwd config\<rparr>
            in case execSync rt calls call of
                 Returned stdout \<Rightarrow> (\<lparr>cli_success = True, cli_output = trim stdout,
                                     cli_error = None\<rparr>, calls @ [call])
               | Threw stdout msg \<Rightarrow> (failed (stdout, msg), calls @ [call])))"

record status_user =
  su_login :: "json option"
  su_name :: "json option"
  su_email :: "json option"

record GitHubCLIStatusResponse =
  isInstalled :: bool
  isAuthenticated :: bool
  st_version :: "string option"
  st_user :: "status_user option"
  st_error :: "string option"

definition status_user_of :: "json \<Rightarrow> status_user option" where
  "status_user_of userData =
     (case getProp userData ''login'' of
        None \<Rightarrow> None
      | Some l \<Rightarrow>
         (case getProp userData ''name'' of
            None \<Rightarrow> None
          | Some n \<Rightarrow>
             (case getProp userData ''email'' of
                None \<Rightarrow> None
              | Some e \<Rightarrow> Some \<lparr>su_login = l, su_name = js_or n l, su_email = e\<rparr>)))"

text \<open>
  The route's \<^verbatim>\<open>loader\<close>; the request's \<^verbatim>\<open>action\<close> parameter is only logged.
  The result is the status and the list of \<^verbatim>\<open>execSync\<close> calls. \<open>st_version\<close>,
  \<open>st_user\<close> and \<open>st_error\<close> are the fields \<^verbatim>\<open>version\<close>, \<^verbatim>\<open>user\<close> and
  \<^verbatim>\<open>error\<close> of \<^verbatim>\<open>GitHubCLIStatusResponse\<close>.
\<close>

definition loader :: "runtime \<Rightarrow> spawn list \<Rightarrow> GitHubCLIStatusResponse \<times> spawn list" where
  "loader rt calls =
    (case executeGitHubCLICommand_status rt calls ''version'' [] Map.empty of
       (checkResult, calls1) \<Rightarrow>
         if \<not> cli_success checkResult then
           (\<lparr>isInstalled = False, isAuthenticated = False, st_version = None, st_user = None,
             st_error = Some (orElse (cli_error checkResult) ''GitHub CLI not found'')\<rparr>, calls1)
         else
           (case executeGitHubCLICommand_status rt calls1 ''auth'' [''status''] Map.empty of
              (authResult, calls2) \<Rightarrow>
                if cli_success authResult then
                  (case executeGitHubCLICommand_status rt calls2 ''api'' [''user''] Map.empty of
                     (userResult, calls3) \<Rightarrow>
                       (\<lparr>isInstalled = True, isAuthenticated = True,
                         st_version = Some (cli_output checkResult),
                         st_user = (if cli_success userResult
                                    then (case JSON_parse rt (cli_output userResult) of
                                            None \<Rightarrow> None
                                          | Some userData \<Rightarrow> status_user_of userData)
                                    else None),
                         st_error = None\<rparr>, calls3))
                else
                  (\<lparr>isInstalled = True, isAuthenticated = False,
                    st_version = Some (cli_output checkResult), st_user = None, st_error = None\<rparr>,
                   calls2)))"

text \<open>The decimal digits of a number, as a template literal writes it.\<close>

fun digits :: "nat \<Rightarrow> string" where
  "digits n = (if n < 10 then [''0123456789'' ! n]
               else digits (n div 10) @ [''0123456789'' ! (n mod 10)])"

declare digits.simps [simp del]

section \<open>The settings store (mcp.ts)\<close>

text \<open>
  The value of type \<^verbatim>\<open>MCPSettings\<close> and the value of type \<^verbatim>\<open>MCPServerTools\<close>
  are JavaScript objects: the code casts what \<^verbatim>\<open>JSON.parse\<close> returns to these types.
  The field \<open>lastError\<close> is the store's \<^verbatim>\<open>error\<close>.
\<close>

record Store =
  isInitialized :: bool
  settings :: json
  serverTools :: json
  lastError :: "string option"
  isUpdatingConfig :: bool

text \<open>
  The state the store's actions read and write: the store, \<^verbatim>\<open>localStorage\<close>, and the
  requests passed to \<^verbatim>\<open>fetch\<close> so far. Writes to \<^verbatim>\<open>localStorage\<close> are taken to
  succeed.
\<close>

record client =
  store :: Store
  localStorage :: "string \<rightharpoonup> string"
  requests :: "request list"

definition MCP_SETTINGS_KEY :: string where
  "MCP_SETTINGS_KEY = ''mcp_settings''"

definition defaultSettings :: json where
  "defaultSettings =
     JObj [(''maxLLMSteps'', JNum 5), (''mcpConfig'', JObj [(''mcpServers'', JObj [])])]"

definition initialStore :: Store where
  "initialStore = \<lparr>isInitialized = False, settings = defaultSettings, serverTools = JObj [],
                    lastError = None, isUpdatingConfig = False\<rparr>"

text \<open>
  \<^verbatim>\<open>updateServerConfig\<close> in two parts: the request it passes to \<^verbatim>\<open>fetch\<close>, and what
  it makes of the outcome (\<open>Inl\<close> the message of the error it throws). The argument is
  \<open>None\<close> when \<^verbatim>\<open>settings.mcpConfig\<close> is undefined.
\<close>

definition updateServerConfig_request :: "runtime \<Rightarrow> json option \<Rightarrow> request" where
  "updateServerConfig_request rt config =
     \<lparr>url = ''/api/mcp-update-config'', httpMethod = ''POST'',
      headers = [(''Content-Type'', ''application/json'')],
      body = map_option (JSON_stringify rt) config\<rparr>"

definition updateServerConfig_settle :: "runtime \<Rightarrow> fetch_outcome \<Rightarrow> string + json" where
  "updateServerConfig_settle rt outcome =
     (case outcome of
        Rejected msg \<Rightarrow> Inl msg
      | Resolved r \<Rightarrow>
         if \<not> ok r
         then Inl (''Server responded with '' @ digits (status r) @ '': '' @ statusText r)
         else (case JSON_parse rt (bodyText r) of
                 None \<Rightarrow> Inl (syntaxError rt (bodyText r))
               | Some data \<Rightarrow> Inr data))"

definition updateServerConfig :: "runtime \<Rightarrow> json option \<Rightarrow> string + json" where
  "updateServerConfig rt config =
     updateServerConfig_settle rt (fetch rt (updateServerConfig_request rt config))"

definition setStore :: "(Store \<Rightarrow> Store) \<Rightarrow> client \<Rightarrow> client" where
  "setStore f c = c\<lparr>store := f (store c)\<rparr>"

definition setItem :: "string \<Rightarrow> string \<Rightarrow> client \<Rightarrow> client" where
  "setItem k v c = c\<lparr>localStorage := (localStorage c)(k \<mapsto> v)\<rparr>"

text \<open>
  \<^verbatim>\<open>initialize\<close>, run to its end. \<^verbatim>\<open>if (savedConfig)\<close> is false for a missing item
  and for the empty string.
\<close>

definition initialize :: "runtime \<Rightarrow> client \<Rightarrow> client" where
  "initialize rt c =
    (if isInitialized (store c) then c
     else
       setStore (\<lambda>s. s\<lparr>isInitialized := True\<rparr>)
        (if \<not> isBrowser rt then c
         else if orElse (localStorage c MCP_SETTINGS_KEY) [] = []
           then setItem MCP_SETTINGS_KEY (JSON_stringify rt defaultSettings) c
         else
           (let savedConfig = orElse (localStorage c MCP_SETTINGS_KEY) [];
                failed = (\<lambda>msg c'. setStore (\<lambda>s. s\<lparr>lastError :=
                            Some (''Error parsing saved mcp config: '' @ msg)\<rparr>) c')
            in case JSON_parse rt savedConfig of
                 None \<Rightarrow> failed (syntaxError rt savedConfig) c
               | Some parsed \<Rightarrow>
                  (case getProp parsed ''mcpConfig'' of
                     None \<Rightarrow> failed (typeError rt ''mcpConfig'') c
                   | Some config \<Rightarrow>
                      (let c1 = c\<lparr>requests := requests c
                                   @ [updateServerConfig_request rt config]\<rparr>
                       in case updateServerConfig rt config of
                            Inl msg \<Rightarrow> failed msg c1
                          | Inr tools \<Rightarrow>
                             setStore (\<lambda>s. s\<lparr>settings := parsed, serverTools := tools\<rparr>)
                               c1)))))"

text \<open>
  \<^verbatim>\<open>updateSettings\<close> is an async function: it runs up to its first \<^verbatim>\<open>await\<close>, where
  the request has been passed to \<^verbatim>\<open>fetch\<close>, and goes on when the request has settled;
  other calls may run in between. \<open>updateSettings_start\<close> is the first part: it has
  finished (\<open>Inl\<close> the message of the error it throws), or it waits for the request.
  \<open>updateSettings_settle\<close> is the second part, on the state of that later moment.
\<close>

datatype progress =
    Finished "string + unit"
  | Awaiting request

definition updateSettings_start :: "runtime \<Rightarrow> json \<Rightarrow> client \<Rightarrow> progress \<times> client" where
  "updateSettings_start rt newSettings c =
    (if isUpdatingConfig (store c) then (Finished (Inr ()), c)
     else
       (let c1 = setStore (\<lambda>s. s\<lparr>isUpdatingConfig := True\<rparr>) c
        in case getProp newSettings ''mcpConfig'' of
             None \<Rightarrow>
               (Finished (Inl (typeError rt ''mcpConfig'')),
                setStore (\<lambda>s. s\<lparr>isUpdatingConfig := False\<rparr>) c1)
           | Some config \<Rightarrow>
               (Awaiting (updateServerConfig_request rt config),
                c1\<lparr>requests := requests c1 @ [updateServerConfig_request rt config]\<rparr>)))"

definition updateSettings_settle ::
  "runtime \<Rightarrow> json \<Rightarrow> fetch_outcome \<Rightarrow> client \<Rightarrow> (string + unit) \<times> client" where
  "updateSettings_settle rt newSettings outcome c =
    (case updateServerConfig_settle rt outcome of
       Inl msg \<Rightarrow> (Inl msg, setStore (\<lambda>s. s\<lparr>isUpdatingConfig := False\<rparr>) c)
     | Inr tools \<Rightarrow>
        (Inr (),
         setStore (\<lambda>s. s\<lparr>isUpdatingConfig := False\<rparr>)
          (setStore (\<lambda>s. s\<lparr>settings := newSettings, serverTools := tools\<rparr>)
            (if isBrowser rt
             then setItem MCP_SETTINGS_KEY (JSON_stringify rt newSettings) c
             else c))))"

text \<open>One call of \<^verbatim>\<open>updateSettings\<close> with no other call in between.\<close>

definition updateSettings :: "runtime \<Rightarrow> json \<Rightarrow> client \<Rightarrow> (string + unit) \<times> client" where
  "updateSettings rt newSettings c =
    (case updateSettings_start rt newSettings c of
       (Finished r, c') \<Rightarrow> (r, c')
     | (Awaiting req, c') \<Rightarrow> updateSettings_settle rt newSettings (fetch rt req) c')"

section \<open>A model of JSON.stringify and JSON.parse\<close>

text \<open>
  A model of the two built-in functions on a part of their domain, and silent outside it.
  The numbers of the model are the safe integers, from \<open>- maxSafeInteger\<close> to
  \<open>maxSafeInteger\<close> (\<^verbatim>\<open>Number.MAX_SAFE_INTEGER\<close>, 2^53 - 1): a JavaScript number holds
  each of them exactly, \<^verbatim>\<open>JSON.stringify\<close> writes all their digits and
  \<^verbatim>\<open>JSON.parse\<close> reads them back without rounding. Beyond them the text of a number
  is the shortest that rounds to it, with an exponent from 10^21 on, which the model does
  not describe: there \<open>numberToString\<close> and \<open>stringify\<close> are \<open>None\<close>.
\<close>

definition maxSafeInteger :: int where
  "maxSafeInteger = 9007199254740991"

definition numberToString :: "int \<Rightarrow> string option" where
  "numberToString i =
     (if i < - maxSafeInteger \<or> maxSafeInteger < i then None
      else Some (if i < 0 then CHR ''-'' # digits (nat (- i)) else digits (nat i)))"

definition hexDigit :: "nat \<Rightarrow> char" where
  "hexDigit d = ''0123456789abcdef'' ! d"

definition quoteChar :: "char \<Rightarrow> string" where
  "quoteChar c =
     (if c = CHR 0x22 then [CHR 0x5C, CHR 0x22]
      else if c = CHR 0x5C then [CHR 0x5C, CHR 0x5C]
      else if c = CHR 0x08 then [CHR 0x5C, CHR ''b'']
      else if c = CHR 0x0C then [CHR 0x5C, CHR ''f'']
      else if c = CHR 0x0A then [CHR 0x5C, CHR ''n'']
      else if c = CHR 0x0D then [CHR 0x5C, CHR ''r'']
      else if c = CHR 0x09 then [CHR 0x5C, CHR ''t'']
      else if (of_char c :: nat) < 32
        then [CHR 0x5C, CHR ''u'', CHR ''0'', CHR ''0'',
              hexDigit (of_char c div 16), hexDigit (of_char c mod 16)]
      else [c])"

definition quoteJSONString :: "string \<Rightarrow> string" where
  "quoteJSONString s = CHR 0x22 # concat (map quoteChar s) @ [CHR 0x22]"

text \<open>
  \<^verbatim>\<open>JSON.stringify\<close> with no indentation, on the values of type \<open>json\<close> whose
  numbers are safe integers.
\<close>

fun stringify :: "json \<Rightarrow> string option" where
  "stringify JNull = Some ''null''"
| "stringify (JBool b) = Some (if b then ''true'' else ''false'')"
| "stringify (JNum i) = numberToString i"
| "stringify (JStr s) = Some (quoteJSONString s)"
| "stringify (JArr vs) =
     map_option (\<lambda>ts. ''['' @ join '','' ts @ '']'') (those (map stringify vs))"
| "stringify (JObj kvs) =
     map_option (\<lambda>ts. ''{'' @ join '','' ts @ ''}'')
       (those (map (\<lambda>kv. map_option (\<lambda>t. quoteJSONString (fst kv) @ '':'' @ t)
                               (stringify (snd kv))) kvs))"

definition isDigit :: "char \<Rightarrow> bool" where
  "isDigit c = (48 \<le> (of_char c :: nat) \<and> (of_char c :: nat) \<le> 57)"

definition digitsValue :: "string \<Rightarrow> int" where
  "digitsValue s = foldl (\<lambda>n c. 10 * n + (of_char c - 48)) 0 s"

definition arrayIndex :: "string \<Rightarrow> int option" where
  "arrayIndex k =
     (if k \<noteq> [] \<and> list_all isDigit k \<and> (k = ''0'' \<or> hd k \<noteq> CHR ''0'')
         \<and> digitsValue k < 4294967295
      then Some (digitsValue k) else None)"




text \<open>
  A model of \<^verbatim>\<open>JSON.parse\<close>. The result of a parser is \<open>Ok\<close> with what was read
  and the rest of the text, \<open>Fail\<close> where \<^verbatim>\<open>JSON.parse\<close> throws a SyntaxError,
  \<open>Beyond\<close> where the text leaves the model, which then says nothing of what
  \<^verbatim>\<open>JSON.parse\<close> does (a number with a fraction or an exponent, an integer that is
  not safe, a negative zero, an escape \<^verbatim>\<open>\uXXXX\<close> above U+00FF), and \<open>More\<close> when
  the counter that bounds the recursion has run out.

  A property name that is a canonical array index (an integer below 2^32 - 1 written
  without a sign or leading zeros) comes before the other names of an object, in
  ascending order; the other names keep the order in which they were added. A name that
  occurs again replaces the value and keeps its place.
\<close>

datatype 'a parsed = Fail | More | Beyond | Ok 'a string

fun mapParsed :: "('a \<Rightarrow> 'b) \<Rightarrow> 'a parsed \<Rightarrow> 'b parsed" where
  "mapParsed f (Ok x rest) = Ok (f x) rest"
| "mapParsed f Fail = Fail"
| "mapParsed f More = More"
| "mapParsed f Beyond = Beyond"

fun replaceValue :: "string \<Rightarrow> json \<Rightarrow> (string \<times> json) list \<Rightarrow> (string \<times> json) list" where
  "replaceValue k v [] = []"
| "replaceValue k v (kv # kvs) = (if fst kv = k then (k, v) # kvs else kv # replaceValue k v kvs)"

fun insertIndexed :: "int \<Rightarrow> string \<times> json \<Rightarrow> (string \<times> json) list \<Rightarrow> (string \<times> json) list" where
  "insertIndexed i new [] = [new]"
| "insertIndexed i new (kv # kvs) =
     (case arrayIndex (fst kv) of
        None \<Rightarrow> new # kv # kvs
      | Some j \<Rightarrow> if j < i then kv # insertIndexed i new kvs else new # kv # kvs)"

definition defineProperty :: "(string \<times> json) list \<Rightarrow> string \<times> json \<Rightarrow> (string \<times> json) list" where
  "defineProperty kvs new =
     (if fst new \<in> set (map fst kvs) then replaceValue (fst new) (snd new) kvs
      else case arrayIndex (fst new) of
             None \<Rightarrow> kvs @ [new]
           | Some i \<Rightarrow> insertIndexed i new kvs)"

definition makeObject :: "(string \<times> json) list \<Rightarrow> json" where
  "makeObject members = JObj (foldl defineProperty [] members)"

definition isJSONSpace :: "char \<Rightarrow> bool" where
  "isJSONSpace c = (c = CHR 0x20 \<or> c = CHR 0x09 \<or> c = CHR 0x0A \<or> c = CHR 0x0D)"

definition skipSpace :: "string \<Rightarrow> string" where
  "skipSpace s = dropWhile isJSONSpace s"

definition hexValue :: "char \<Rightarrow> nat option" where
  "hexValue c =
     (let n = of_char c :: nat in
      if 48 \<le> n \<and> n \<le> 57 then Some (n - 48)
      else if 97 \<le> n \<and> n \<le> 102 then Some (n - 87)
      else if 65 \<le> n \<and> n \<le> 70 then Some (n - 55)
      else None)"

definition hex4 :: "string \<Rightarrow> nat option" where
  "hex4 s =
     (case map hexValue (take 4 s) of
        [Some a, Some b, Some c, Some d] \<Rightarrow> Some (((a * 16 + b) * 16 + c) * 16 + d)
      | _ \<Rightarrow> None)"

definition unescape :: "char \<Rightarrow> char option" where
  "unescape e =
     (if e = CHR 0x22 then Some (CHR 0x22)
      else if e = CHR 0x5C then Some (CHR 0x5C)
      else if e = CHR ''/'' then Some (CHR ''/'')
      else if e = CHR ''b'' then Some (CHR 0x08)
      else if e = CHR ''f'' then Some (CHR 0x0C)
      else if e = CHR ''n'' then Some (CHR 0x0A)
      else if e = CHR ''r'' then Some (CHR 0x0D)
      else if e = CHR ''t'' then Some (CHR 0x09)
      else None)"

function parseChars :: "string \<Rightarrow> string parsed" where
  "parseChars [] = Fail"
| "parseChars (c # cs) =
     (if c = CHR 0x22 then Ok [] cs
      else if c = CHR 0x5C then
        (case cs of
           [] \<Rightarrow> Fail
         | e # es \<Rightarrow>
            if e = CHR ''u'' then
              (case hex4 es of
                 None \<Rightarrow> Fail
               | Some n \<Rightarrow>
                  if n < 256 then mapParsed ((#) (char_of n)) (parseChars (drop 4 es))
                  else Beyond)
            else
              (case unescape e of
                 None \<Rightarrow> Fail
               | Some x \<Rightarrow> mapParsed ((#) x) (parseChars es)))
      else if (of_char c :: nat) < 32 then Fail
      else mapParsed ((#) c) (parseChars cs))"
  by pat_completeness auto
termination
  by (relation "measure length") auto

declare parseChars.simps [simp del]

definition parseNumber :: "string \<Rightarrow> int parsed" where
  "parseNumber s =
     (let neg = (s \<noteq> [] \<and> hd s = CHR ''-'');
          body = (if neg then tl s else s);
          ds = (if body \<noteq> [] \<and> hd body = CHR ''0'' then ''0'' else takeWhile isDigit body);
          rest = drop (length ds) body;
          n = digitsValue ds
      in if ds = [] then Fail
         else if rest \<noteq> [] \<and> hd rest \<in> set ''.eE'' then Beyond
         else if maxSafeInteger < n \<or> (neg \<and> n = 0) then Beyond
         else Ok (if neg then - n else n) rest)"

fun parseValue :: "nat \<Rightarrow> string \<Rightarrow> json parsed"
  and parseElements :: "nat \<Rightarrow> string \<Rightarrow> json list parsed"
  and parseMembers :: "nat \<Rightarrow> string \<Rightarrow> (string \<times> json) list parsed" where
  "parseValue 0 s = More"
| "parseValue (Suc n) s =
     (case skipSpace s of
        [] \<Rightarrow> Fail
      | c # cs \<Rightarrow>
         if c = CHR 0x22 then mapParsed JStr (parseChars cs)
         else if c = CHR ''['' then
           (if skipSpace cs \<noteq> [] \<and> hd (skipSpace cs) = CHR '']''
            then Ok (JArr []) (tl (skipSpace cs))
            else mapParsed JArr (parseElements n cs))
         else if c = CHR ''{'' then
           (if skipSpace cs \<noteq> [] \<and> hd (skipSpace cs) = CHR ''}''
            then Ok (JObj []) (tl (skipSpace cs))
            else mapParsed makeObject (parseMembers n cs))
         else if startsWith (c # cs) ''true'' then Ok (JBool True) (drop 4 (c # cs))
         else if startsWith (c # cs) ''false'' then Ok (JBool False) (drop 5 (c # cs))
         else if startsWith (c # cs) ''null'' then Ok JNull (drop 4 (c # cs))
         else mapParsed JNum (parseNumber (c # cs)))"
| "parseElements 0 s = More"
| "parseElements (Suc n) s =
     (case parseValue n s of
        Fail \<Rightarrow> Fail
      | More \<Rightarrow> More
      | Beyond \<Rightarrow> Beyond
      | Ok v rest \<Rightarrow>
         (case skipSpace rest of
            [] \<Rightarrow> Fail
          | d # rest' \<Rightarrow>
             if d = CHR '']'' then Ok [v] rest'
             else if d = CHR '','' then mapParsed ((#) v) (parseElements n rest')
             else Fail))"
| "parseMembers 0 s = More"
| "parseMembers (Suc n) s =
     (case skipSpace s of
        [] \<Rightarrow> Fail
      | q # cs \<Rightarrow>
         if q \<noteq> CHR 0x22 then Fail
         else (case parseChars cs of
                 Fail \<Rightarrow> Fail
               | More \<Rightarrow> More
               | Beyond \<Rightarrow> Beyond
               | Ok k rest \<Rightarrow>
                  (case skipSpace rest of
                     [] \<Rightarrow> Fail
                   | colon # rest1 \<Rightarrow>
                      if colon \<noteq> CHR '':'' then Fail
                      else (case parseValue n rest1 of
                              Fail \<Rightarrow> Fail
                            | More \<Rightarrow> More
                            | Beyond \<Rightarrow> Beyond
                            | Ok v rest2 \<Rightarrow>
                               (case skipSpace rest2 of
                                  [] \<Rightarrow> Fail
                                | d # rest3 \<Rightarrow>
                                   if d = CHR ''}'' then Ok [(k, v)] rest3
                                   else if d = CHR '','' then
                                     mapParsed ((#) (k, v)) (parseMembers n rest3)
                                   else Fail)))))"

text \<open>
  \<^verbatim>\<open>JSON.parse\<close> of a whole text: the value, a SyntaxError, or no statement where
  the text leaves the model.
\<close>

datatype parse_outcome = SyntaxError | Unmodelled | Value json

definition parseJSON :: "string \<Rightarrow> parse_outcome" where
  "parseJSON s =
     (case parseValue (2 * length s + 1) s of
        Ok v rest \<Rightarrow> if skipSpace rest = [] then Value v else SyntaxError
      | Fail \<Rightarrow> SyntaxError
      | Beyond \<Rightarrow> Unmodelled
      | More \<Rightarrow> Unmodelled)"

section \<open>The command validator as the specification words it\<close>

text \<open>
  The specification's validator: a verb is accepted if it starts, without regard to case,
  with one of the verbs version, auth, repo, issue, pr, workflow, api, gist, secret,
  key-management.
\<close>

definition spec_allowed_verbs :: "string list" where
  "spec_allowed_verbs = [''version'', ''auth'', ''repo'', ''issue'', ''pr'', ''workflow'', ''api'',
                         ''gist'', ''secret'', ''key-management'']"

definition spec_CommandValidator :: "string \<Rightarrow> bool" where
  "spec_CommandValidator verb = list_ex (\<lambda>v. prefix v (toLowerCase verb)) spec_allowed_verbs"

section \<open>Example runtimes\<close>

text \<open>
  A command-line tool that answers the three command lines of the exec route, a runtime
  built from such a tool and from a server, and a server that answers every request with
  an empty object.
\<close>

definition example_cli :: "string \<Rightarrow> exec_outcome" where
  "example_cli line =
     (let gh = CHR 0x22 # path (GITHUB_CLI_CONFIG windows) @ [CHR 0x22] in
      if line = gh @ '' version '' then Returned (''gh version 2.40.0 (2023-01-01)'' @ [CHR 0x0A])
      else if line = gh @ '' auth status '' then Returned ''Logged in to github.com account alice''
      else if line = gh @ '' api user''
        then Returned (''{'' @ CHR 0x22 # ''login'' @ CHR 0x22 # '':'' @ CHR 0x22 # ''alice''
                        @ CHR 0x22 # '','' @ CHR 0x22 # ''name'' @ CHR 0x22 # '':'' @ CHR 0x22
                        # ''Alice A'' @ CHR 0x22 # ''}'')
      else Threw (Some []) (Some ''Command failed''))"

text \<open>
  The JSON functions of the example runtimes: those of the model, on the texts and the
  values of the model. Outside the model they reject the text and write the empty text;
  the examples stay inside it.
\<close>

definition example_parse :: "string \<Rightarrow> json option" where
  "example_parse t = (case parseJSON t of Value v \<Rightarrow> Some v | SyntaxError \<Rightarrow> None | Unmodelled \<Rightarrow> None)"

definition example_stringify :: "json \<Rightarrow> string" where
  "example_stringify v = (case stringify v of Some t \<Rightarrow> t | None \<Rightarrow> [])"

definition example_runtime ::
  "(string \<Rightarrow> exec_outcome) \<Rightarrow> (request \<Rightarrow> fetch_outcome) \<Rightarrow> runtime" where
  "example_runtime run net =
     \<lparr>execSync = (\<lambda>calls call. run (fullCommand call)), child_process = None,
      process_env = [''PATH'' \<mapsto> ''/usr/bin''], JSON_parse = example_parse,
      JSON_stringify = example_stringify, syntaxError = (\<lambda>s. ''Unexpected end of JSON input''),
      typeError = (\<lambda>k. ''Cannot read properties of null''), isBrowser = True, fetch = net\<rparr>"

definition example_net :: "request \<Rightarrow> fetch_outcome" where
  "example_net req = Resolved \<lparr>ok = True, status = 200, statusText = ''OK'', bodyText = ''{}''\<rparr>"

text \<open>A tool that answers \<^verbatim>\<open>auth status\<close> and fails on every other command line.\<close>

definition example_cli_logged_in_only :: "string \<Rightarrow> exec_outcome" where
  "example_cli_logged_in_only line =
     (let gh = CHR 0x22 # path (GITHUB_CLI_CONFIG windows) @ [CHR 0x22] in
      if line = gh @ '' auth status '' then Returned ''Logged in to github.com account alice''
      else Threw None (Some ''Command failed: gh api user''))"

text \<open>
  Tools for the status route, whose command lines are the quoted path followed by the
  arguments: one that cannot be started, one that runs but is not logged in, and one that
  answers all three calls.
\<close>

definition example_cli_missing :: "string \<Rightarrow> exec_outcome" where
  "example_cli_missing line = Threw None (Some ''spawn gh.exe ENOENT'')"

definition example_cli_logged_out :: "string \<Rightarrow> exec_outcome" where
  "example_cli_logged_out line =
     (let gh = CHR 0x22 # path (GITHUB_CLI_CONFIG windows) @ [CHR 0x22] in
      if line = gh @ '' '' then Returned ''Work seamlessly with GitHub''
      else Threw (Some ''You are not logged into any GitHub hosts'') (Some ''Command failed''))"

definition example_cli_status :: "string \<Rightarrow> exec_outcome" where
  "example_cli_status line =
     (let gh = CHR 0x22 # path (GITHUB_CLI_CONFIG windows) @ [CHR 0x22] in
      if line = gh @ '' '' then Returned ''Work seamlessly with GitHub''
      else if line = gh @ '' status'' then Returned ''Assigned Issues''
      else if line = gh @ '' user''
        then Returned (''{'' @ CHR 0x22 # ''login'' @ CHR 0x22 # '':'' @ CHR 0x22 # ''alice''
                        @ CHR 0x22 # '','' @ CHR 0x22 # ''name'' @ CHR 0x22 # '':'' @ CHR 0x22
                        # ''Alice A'' @ CHR 0x22 # ''}'')
      else Threw (Some []) (Some ''Command failed''))"

text \<open>
  A server that cannot be reached; a store that has not been used; the same store while
  an update is in progress.
\<close>

definition example_net_down :: "request \<Rightarrow> fetch_outcome" where
  "example_net_down req = Rejected ''Failed to fetch''"

definition example_client :: client where
  "example_client = \<lparr>store = initialStore, localStorage = Map.empty, requests = []\<rparr>"

definition example_client_updating :: client where
  "example_client_updating =
     \<lparr>store = initialStore\<lparr>isUpdatingConfig := True\<rparr>, localStorage = Map.empty,
      requests = []\<rparr>"

section \<open>Serialized values\<close>



section \<open>Well-formed settings\<close>






section \<open>The command validator\<close>

lemma startsWith_prefix: "startsWith s p \<longleftrightarrow> prefix p s"
  by (induction s p rule: startsWith.induct) auto

lemma isAllowed_prefix:
  "isAllowed cmd \<longleftrightarrow> (\<exists>v\<in>set allowedCommands. prefix v (toLowerCase cmd))"
  by (simp add: isAllowed_def list_ex_iff startsWith_prefix)

lemmas lower_eval = isAllowed_def allowedCommands_def toLowerCase_def toLowerChar_def isUpper_def

text \<open>
  C1. A request whose command starts with none of the allowed commands gets a response
  with \<open>success = False\<close>, an empty output and an error that names the command, and
  \<^verbatim>\<open>execSync\<close> is not called: the list of calls is the one before the request.
\<close>

theorem execute_rejects_disallowed:
  assumes "\<not> isAllowed (req_command req)"
  shows "action rt calls ''POST'' (Inr req) =
      (Json \<lparr>success = False,
             command = req_command req @ '' '' @ join '' '' (argsOf req),
             outputText = [],
             error = Some (''Command '' @ [CHR 0x27] @ req_command req @ [CHR 0x27]
                             @ '' is not allowed for security reasons''),
             version = None, user = None\<rparr>, calls)"
  using assms by (simp add: action_def Let_def)

theorem execute_rejects_disallowed_witness:
  "\<not> isAllowed ''rm -rf /'' \<and>
   action (example_runtime example_cli example_net) [] ''POST''
     (Inr \<lparr>req_command = ''rm -rf /'', req_args = Some [''--force''], req_env = None,
           req_cwd = None\<rparr>) =
   (Json \<lparr>success = False, command = ''rm -rf / --force'', outputText = [],
          error = Some (''Command '' @ [CHR 0x27] @ ''rm -rf /'' @ [CHR 0x27]
                          @ '' is not allowed for security reasons''),
          version = None, user = None\<rparr>, [])"
proof -
  have h: "\<not> isAllowed (req_command \<lparr>req_command = ''rm -rf /'', req_args = Some [''--force''],
              req_env = None, req_cwd = None\<rparr>)"
    by (simp add: lower_eval)
  show ?thesis
    using h execute_rejects_disallowed [OF h, of "example_runtime example_cli example_net" "[]"]
    by (simp add: argsOf_def)
qed

text \<open>
  C7, as the specification words it, fails: \<^verbatim>\<open>key-management\<close> is not among the
  allowed commands of the code (\<^verbatim>\<open>ssh-key\<close> is), so the code rejects it.
\<close>

theorem validator_differs_from_spec:
  "\<not> (isAllowed ''key-management'' \<longleftrightarrow> spec_CommandValidator ''key-management'')"
  by (simp add: lower_eval spec_CommandValidator_def spec_allowed_verbs_def)

text \<open>
  C7, amended. A command is accepted if and only if, put in lower case, it starts with one
  of version, auth, repo, issue, pr, workflow, api, gist, secret, ssh-key. A rejected
  command is answered by an ordinary response: status 200 and \<open>success = False\<close>.
\<close>

theorem validator_accepts_prefixes:
  "(isAllowed cmd \<longleftrightarrow>
      (\<exists>v\<in>set [''version'', ''auth'', ''repo'', ''issue'', ''pr'', ''workflow'', ''api'', ''gist'',
                ''secret'', ''ssh-key'']. prefix v (toLowerCase cmd)))
   \<and> (\<not> isAllowed (req_command req) \<longrightarrow>
        (\<exists>r. fst (action rt calls ''POST'' (Inr req)) = Json r \<and> \<not> success r)
        \<and> reply_status (fst (action rt calls ''POST'' (Inr req))) = 200)"
  by (simp add: isAllowed_prefix allowedCommands_def action_def Let_def)

theorem validator_accepts_prefixes_witness:
  "isAllowed ''SSH-Key list'' \<and> \<not> isAllowed ''key-management''
   \<and> reply_status (fst (action (example_runtime example_cli example_net) [] ''POST''
         (Inr \<lparr>req_command = ''key-management'', req_args = None, req_env = None,
               req_cwd = None\<rparr>))) = 200"
  using validator_accepts_prefixes [of "''SSH-Key list''"
      "\<lparr>req_command = ''key-management'', req_args = None, req_env = None, req_cwd = None\<rparr>"
      "example_runtime example_cli example_net" "[]"]
  by (simp add: lower_eval)

section \<open>The exec route\<close>

lemma match_gh_version_Some:
  "match_gh_version s = Some t \<Longrightarrow>
     \<exists>pre post. s = pre @ ''gh version '' @ t @ post \<and> t \<noteq> [] \<and> (\<forall>c\<in>set t. \<not> isSpace c)
        \<and> (post = [] \<or> isSpace (hd post))"
proof (induction s)
  case Nil
  then show ?case by simp
next
  case (Cons c cs)
  let ?rest = "drop 11 (c # cs)"
  let ?tok = "takeWhile (\<lambda>x. \<not> isSpace x) ?rest"
  show ?case
  proof (cases "startsWith (c # cs) ''gh version '' \<and> ?tok \<noteq> []")
    case True
    then have t: "t = ?tok" using Cons.prems by simp
    from True have "prefix ''gh version '' (c # cs)" by (simp only: startsWith_prefix)
    then obtain r where r: "c # cs = ''gh version '' @ r" by (auto simp: prefix_def)
    then have rest: "?rest = r" by simp
    have split: "r = ?tok @ dropWhile (\<lambda>x. \<not> isSpace x) r"
      using rest by simp
    have tail: "dropWhile (\<lambda>x. \<not> isSpace x) r = [] \<or> isSpace (hd (dropWhile (\<lambda>x. \<not> isSpace x) r))"
      using hd_dropWhile [of "\<lambda>x. \<not> isSpace x" r] by auto
    have nonsp: "\<forall>x\<in>set ?tok. \<not> isSpace x"
      by (auto dest: set_takeWhileD)
    have "c # cs = [] @ ''gh version '' @ t @ dropWhile (\<lambda>x. \<not> isSpace x) r"
      using r split t by simp
    with True t tail nonsp show ?thesis by blast
  next
    case False
    then have "match_gh_version cs = Some t" using Cons.prems by (simp split: if_splits)
    from Cons.IH [OF this] obtain pre post where
      "cs = pre @ ''gh version '' @ t @ post" "t \<noteq> []" "\<forall>c\<in>set t. \<not> isSpace c"
      "post = [] \<or> isSpace (hd post)" by blast
    then have "c # cs = (c # pre) @ ''gh version '' @ t @ post" by simp
    with \<open>t \<noteq> []\<close> \<open>\<forall>c\<in>set t. \<not> isSpace c\<close> \<open>post = [] \<or> isSpace (hd post)\<close>
    show ?thesis by blast
  qed
qed

lemma match_gh_version_None:
  "match_gh_version s = None \<longleftrightarrow>
     (\<forall>pre c post. s = pre @ ''gh version '' @ c # post \<longrightarrow> isSpace c)"
proof (induction s)
  case Nil
  then show ?case by simp
next
  case (Cons a s)
  let ?rest = "drop 11 (a # s)"
  let ?tok = "takeWhile (\<lambda>x. \<not> isSpace x) ?rest"
  let ?here = "startsWith (a # s) ''gh version '' \<and> ?tok \<noteq> []"
  have here: "?here \<longleftrightarrow> (\<exists>c post. a # s = ''gh version '' @ c # post \<and> \<not> isSpace c)"
  proof
    assume h: ?here
    then have "prefix ''gh version '' (a # s)" by (simp only: startsWith_prefix)
    then obtain r where r: "a # s = ''gh version '' @ r" by (auto simp: prefix_def)
    then have "?rest = r" by simp
    with h have "takeWhile (\<lambda>x. \<not> isSpace x) r \<noteq> []" by simp
    then obtain c post where "r = c # post" "\<not> isSpace c"
      by (cases r) (auto split: if_splits)
    with r show "\<exists>c post. a # s = ''gh version '' @ c # post \<and> \<not> isSpace c" by auto
  next
    assume "\<exists>c post. a # s = ''gh version '' @ c # post \<and> \<not> isSpace c"
    then obtain c post where r: "a # s = ''gh version '' @ c # post" and c: "\<not> isSpace c" by blast
    have "prefix ''gh version '' (a # s)" unfolding r by (rule prefixI) simp
    then have "startsWith (a # s) ''gh version ''" by (simp only: startsWith_prefix)
    moreover have "?rest = c # post" using r by simp
    ultimately show ?here using c by simp
  qed
  have later: "(\<forall>pre c post. a # s = pre @ ''gh version '' @ c # post \<longrightarrow> isSpace c) \<longleftrightarrow>
      (\<forall>c post. a # s = ''gh version '' @ c # post \<longrightarrow> isSpace c)
      \<and> (\<forall>pre c post. s = pre @ ''gh version '' @ c # post \<longrightarrow> isSpace c)"
    (is "?L \<longleftrightarrow> ?A \<and> ?B")
  proof
    assume l: ?L
    have ?A using l [rule_format, of "[]"] by simp
    moreover have ?B
    proof (intro allI impI)
      fix pre c post assume "s = pre @ ''gh version '' @ c # post"
      then have "a # s = (a # pre) @ ''gh version '' @ c # post" by simp
      with l show "isSpace c" by blast
    qed
    ultimately show "?A \<and> ?B" ..
  next
    assume ab: "?A \<and> ?B"
    show ?L
    proof (intro allI impI)
      fix pre c post assume e: "a # s = pre @ ''gh version '' @ c # post"
      show "isSpace c"
      proof (cases pre)
        case Nil
        with e ab show ?thesis by simp
      next
        case (Cons p pre')
        with e have "s = pre' @ ''gh version '' @ c # post" by simp
        with ab show ?thesis by blast
      qed
    qed
  qed
  show ?case
  proof (cases ?here)
    case True
    then have "match_gh_version (a # s) \<noteq> None" by simp
    moreover from True here have "\<not> (\<forall>c post. a # s = ''gh version '' @ c # post \<longrightarrow> isSpace c)"
      by blast
    ultimately show ?thesis using later by blast
  next
    case False
    then have "match_gh_version (a # s) = match_gh_version s"
      by (simp only: match_gh_version.simps if_False)
    moreover from False here have "\<forall>c post. a # s = ''gh version '' @ c # post \<longrightarrow> isSpace c"
      by blast
    ultimately show ?thesis using later Cons.IH by simp
  qed
qed

lemma exec_version_None:
  "version (fst (executeGitHubCLICommand rt calls cmd args env d)) = None"
  "user (fst (executeGitHubCLICommand rt calls cmd args env d)) = None"
  by (simp_all add: executeGitHubCLICommand_def Let_def split: option.splits exec_outcome.splits prod.splits)

text \<open>
  C8. When the command is \<^verbatim>\<open>version\<close> and the execution succeeded, the response is
  successful, with the output and error of the execution, and its version is the capture
  of the first match of \<^verbatim>\<open>gh version (\S+)\<close> in the output: a version \<open>t\<close> is a
  non-empty run of characters that are not white space, it follows the text
  \<^verbatim>\<open>gh version \<close> in the output and ends at a white space or at the end; the version is
  unset exactly when the text \<^verbatim>\<open>gh version \<close> is nowhere followed by a character that
  is not white space. The output \<^verbatim>\<open>gh version 2.40.0 (2023-01-01)\<close> gives
  \<^verbatim>\<open>2.40.0\<close>.
\<close>

theorem version_extraction:
  assumes "req_command req = ''version''"
    and "executeGitHubCLICommand rt calls ''version'' (argsOf req) (envOf req) (req_cwd req)
           = (result, calls')"
    and "success result"
  shows "(\<exists>r. action rt calls ''POST'' (Inr req) = (Json r, calls')
            \<and> success r \<and> outputText r = outputText result \<and> error r = error result
            \<and> version r = match_gh_version (outputText result))
     \<and> (\<forall>t. match_gh_version (outputText result) = Some t \<longrightarrow>
           (\<exists>pre post. outputText result = pre @ ''gh version '' @ t @ post \<and> t \<noteq> []
               \<and> (\<forall>c\<in>set t. \<not> isSpace c) \<and> (post = [] \<or> isSpace (hd post))))
     \<and> (match_gh_version (outputText result) = None \<longleftrightarrow>
           (\<forall>pre c post. outputText result = pre @ ''gh version '' @ c # post \<longrightarrow> isSpace c))
     \<and> match_gh_version ''gh version 2.40.0 (2023-01-01)'' = Some ''2.40.0''"
proof -
  have allowed: "isAllowed ''version''" by (simp add: lower_eval)
  have v: "version result = None"
    using exec_version_None(1) [of rt calls "''version''" "argsOf req" "envOf req" "req_cwd req"]
      assms(2) by simp
  have "\<exists>r. action rt calls ''POST'' (Inr req) = (Json r, calls')
            \<and> success r \<and> outputText r = outputText result \<and> error r = error result
            \<and> version r = match_gh_version (outputText result)"
    using assms allowed v by (simp add: action_def Let_def split: option.splits)
  moreover have "match_gh_version ''gh version 2.40.0 (2023-01-01)'' = Some ''2.40.0''"
    by (simp add: isSpace_def)
  ultimately show ?thesis
    using match_gh_version_Some [of "outputText result"] match_gh_version_None [of "outputText result"]
    by blast
qed

lemmas example_eval = example_runtime_def example_cli_def executeGitHubCLICommand_def
  getPlatform_def orElse_def argsOf_def envOf_def

theorem version_extraction_witness:
  "action (example_runtime example_cli example_net) [] ''POST''
     (Inr \<lparr>req_command = ''version'', req_args = None, req_env = None, req_cwd = None\<rparr>)
   = (Json \<lparr>success = True, command = ''version '', outputText = ''gh version 2.40.0 (2023-01-01)'',
            error = None, version = Some ''2.40.0'', user = None\<rparr>,
      [\<lparr>fullCommand = CHR 0x22 # path (GITHUB_CLI_CONFIG windows) @ CHR 0x22 # '' version '',
        fullEnv = [''PATH'' \<mapsto> ''/usr/bin''],
        workingDir = cwd (GITHUB_CLI_CONFIG windows)\<rparr>])"
proof -
  let ?rt = "example_runtime example_cli example_net"
  let ?req = "\<lparr>req_command = ''version'', req_args = None, req_env = None, req_cwd = None\<rparr>"
  let ?call = "\<lparr>fullCommand = CHR 0x22 # path (GITHUB_CLI_CONFIG windows) @ CHR 0x22 # '' version '',
        fullEnv = [''PATH'' \<mapsto> ''/usr/bin''],
        workingDir = cwd (GITHUB_CLI_CONFIG windows)\<rparr>"
  let ?result = "\<lparr>success = True, command = ''version '',
        outputText = ''gh version 2.40.0 (2023-01-01)'', error = None, version = None,
        user = None\<rparr>"
  have 1: "req_command ?req = ''version''" by simp
  have 2: "executeGitHubCLICommand ?rt [] ''version'' (argsOf ?req) (envOf ?req) (req_cwd ?req)
            = (?result, [?call])"
    by (simp add: example_eval trim_def isSpace_def)
  have 3: "success ?result" by simp
  from version_extraction [OF 1 2 3]
  obtain r where r: "action ?rt [] ''POST'' (Inr ?req) = (Json r, [?call])"
     "success r" "outputText r = outputText ?result" "error r = error ?result"
     "version r = match_gh_version (outputText ?result)"
    by blast
  have "r = ?result\<lparr>version := Some ''2.40.0''\<rparr>"
    using 2 r by (simp add: action_def lower_eval isSpace_def Let_def)
  with r(1) show ?thesis by simp
qed

lemma exec_user_alice:
  "exec_user (JObj [(''login'', JStr ''alice''), (''name'', JStr ''Alice A'')])
     = Some \<lparr>login = Some (JStr ''alice''), name = Some (JStr ''Alice A'')\<rparr>"
  by (simp add: exec_user_def js_or_def)

lemma auth_status_allowed: "isAllowed ''auth status''" "''auth status'' \<noteq> ''version''"
  "startsWith ''auth status'' ''auth''"
  by (simp_all add: lower_eval)

text \<open>
  C2. When the command is exactly \<^verbatim>\<open>auth status\<close> and its execution returns, the
  route makes a second call of \<^verbatim>\<open>execSync\<close>, for \<^verbatim>\<open>api user\<close>, with the
  environment and the working directory of the first. When that call returns the text
  \<^verbatim>\<open>{"login":"alice","name":"Alice A"}\<close> (up to surrounding white space) and the
  text parses to the object it denotes, the response's user is login alice, name Alice A.
\<close>

theorem auth_status_chains_identity:
  assumes cmd: "req_command req = ''auth status''"
    and imp: "child_process rt = None"
    and primary: "primary = \<lparr>fullCommand = [CHR 0x22] @ path (GITHUB_CLI_CONFIG getPlatform)
                      @ [CHR 0x22] @ '' auth status '' @ join '' '' (argsOf req),
                    fullEnv = process_env rt ++ envOf req,
                    workingDir = orElse (req_cwd req) (cwd (GITHUB_CLI_CONFIG getPlatform))\<rparr>"
    and chained: "chained = \<lparr>fullCommand = [CHR 0x22] @ path (GITHUB_CLI_CONFIG getPlatform)
                      @ [CHR 0x22] @ '' api user'',
                    fullEnv = fullEnv primary, workingDir = workingDir primary\<rparr>"
    and ok1: "execSync rt calls primary = Returned out1"
  shows "snd (action rt calls ''POST'' (Inr req)) = calls @ [primary, chained]
     \<and> (\<forall>out2. execSync rt (calls @ [primary]) chained = Returned out2
           \<and> trim out2 = ''{'' @ CHR 0x22 # ''login'' @ CHR 0x22 # '':'' @ CHR 0x22 # ''alice''
                        @ CHR 0x22 # '','' @ CHR 0x22 # ''name'' @ CHR 0x22 # '':'' @ CHR 0x22
                        # ''Alice A'' @ CHR 0x22 # ''}''
           \<and> JSON_parse rt (trim out2)
                = Some (JObj [(''login'', JStr ''alice''), (''name'', JStr ''Alice A'')])
         \<longrightarrow> fst (action rt calls ''POST'' (Inr req))
              = Json \<lparr>success = True, command = ''auth status '' @ join '' '' (argsOf req),
                      outputText = trim out1, error = None, version = None,
                      user = Some \<lparr>login = Some (JStr ''alice''),
                                   name = Some (JStr ''Alice A'')\<rparr>\<rparr>)"
proof -
  have first: "executeGitHubCLICommand rt calls ''auth status'' (argsOf req) (envOf req) (req_cwd req)
      = (\<lparr>success = True, command = ''auth status '' @ join '' '' (argsOf req),
           outputText = trim out1, error = None, version = None, user = None\<rparr>,
         calls @ [primary])"
    using imp ok1 primary by (simp add: executeGitHubCLICommand_def Let_def)
  have second_calls: "snd (executeGitHubCLICommand rt (calls @ [primary]) ''api'' [''user'']
      (envOf req) (req_cwd req)) = calls @ [primary, chained]"
    using imp primary chained
    by (simp add: executeGitHubCLICommand_def Let_def split: exec_outcome.splits)
  have second_ok: "executeGitHubCLICommand rt (calls @ [primary]) ''api'' [''user'']
      (envOf req) (req_cwd req) =
      (\<lparr>success = True, command = ''api user'', outputText = trim out2, error = None,
        version = None, user = None\<rparr>, calls @ [primary, chained])"
    if "execSync rt (calls @ [primary]) chained = Returned out2" for out2
    using that imp primary chained
    by (simp add: executeGitHubCLICommand_def Let_def)
  have a: "snd (action rt calls ''POST'' (Inr req)) = calls @ [primary, chained]"
    using cmd first second_calls auth_status_allowed
    by (auto simp: action_def Let_def split: prod.splits)
  have b: "fst (action rt calls ''POST'' (Inr req))
              = Json \<lparr>success = True, command = ''auth status '' @ join '' '' (argsOf req),
                      outputText = trim out1, error = None, version = None,
                      user = Some \<lparr>login = Some (JStr ''alice''),
                                   name = Some (JStr ''Alice A'')\<rparr>\<rparr>"
    if "execSync rt (calls @ [primary]) chained = Returned out2"
      and "JSON_parse rt (trim out2)
                = Some (JObj [(''login'', JStr ''alice''), (''name'', JStr ''Alice A'')])"
    for out2
    using cmd first second_ok [OF that(1)] that(2) auth_status_allowed exec_user_alice
    by (simp add: action_def Let_def)
  from a b show ?thesis by blast
qed

text \<open>
  C3. When the command is \<^verbatim>\<open>auth status\<close> and its execution succeeded, and the
  chained \<^verbatim>\<open>api user\<close> execution failed or its output does not parse, the response
  is the result of the first execution: successful, with no user and no error.
\<close>

theorem identity_failure_is_absorbed:
  assumes cmd: "req_command req = ''auth status''"
    and first: "executeGitHubCLICommand rt calls ''auth status'' (argsOf req) (envOf req)
                  (req_cwd req) = (result, calls1)"
    and ok1: "success result"
    and second: "executeGitHubCLICommand rt calls1 ''api'' [''user''] (envOf req) (req_cwd req)
                   = (userResult, calls2)"
    and failing: "\<not> success userResult \<or> JSON_parse rt (outputText userResult) = None"
  shows "action rt calls ''POST'' (Inr req) = (Json result, calls2)
     \<and> success result \<and> user result = None \<and> error result = None"
proof -
  have u: "user result = None"
    using exec_version_None(2) [of rt calls "''auth status''" "argsOf req" "envOf req" "req_cwd req"]
      first by simp
  have e: "error result = None"
    using first ok1
    by (auto simp: executeGitHubCLICommand_def Let_def split: option.splits exec_outcome.splits)
  have "action rt calls ''POST'' (Inr req) = (Json result, calls2)"
    using cmd first ok1 second failing auth_status_allowed
    by (auto simp: action_def Let_def)
  with u e ok1 show ?thesis by simp
qed

lemma parse_alice:
  "parseJSON (''{'' @ CHR 0x22 # ''login'' @ CHR 0x22 # '':'' @ CHR 0x22 # ''alice''
                        @ CHR 0x22 # '','' @ CHR 0x22 # ''name'' @ CHR 0x22 # '':'' @ CHR 0x22
                        # ''Alice A'' @ CHR 0x22 # ''}'')
     = Value (JObj [(''login'', JStr ''alice''), (''name'', JStr ''Alice A'')])"
  by code_simp

theorem auth_status_chains_identity_witness:
  "action (example_runtime example_cli example_net) [] ''POST''
     (Inr \<lparr>req_command = ''auth status'', req_args = None, req_env = None, req_cwd = None\<rparr>)
   = (Json \<lparr>success = True, command = ''auth status '',
            outputText = ''Logged in to github.com account alice'', error = None,
            version = None,
            user = Some \<lparr>login = Some (JStr ''alice''), name = Some (JStr ''Alice A'')\<rparr>\<rparr>,
      [\<lparr>fullCommand = CHR 0x22 # path (GITHUB_CLI_CONFIG windows) @ CHR 0x22 # '' auth status '',
        fullEnv = [''PATH'' \<mapsto> ''/usr/bin''], workingDir = cwd (GITHUB_CLI_CONFIG windows)\<rparr>,
       \<lparr>fullCommand = CHR 0x22 # path (GITHUB_CLI_CONFIG windows) @ CHR 0x22 # '' api user'',
        fullEnv = [''PATH'' \<mapsto> ''/usr/bin''], workingDir = cwd (GITHUB_CLI_CONFIG windows)\<rparr>])"
proof -
  let ?rt = "example_runtime example_cli example_net"
  let ?req = "\<lparr>req_command = ''auth status'', req_args = None, req_env = None, req_cwd = None\<rparr>"
  let ?primary = "\<lparr>fullCommand = CHR 0x22 # path (GITHUB_CLI_CONFIG windows) @ CHR 0x22 # '' auth status '',
        fullEnv = [''PATH'' \<mapsto> ''/usr/bin''], workingDir = cwd (GITHUB_CLI_CONFIG windows)\<rparr>"
  let ?chained = "\<lparr>fullCommand = CHR 0x22 # path (GITHUB_CLI_CONFIG windows) @ CHR 0x22 # '' api user'',
        fullEnv = [''PATH'' \<mapsto> ''/usr/bin''], workingDir = cwd (GITHUB_CLI_CONFIG windows)\<rparr>"
  let ?text = "''{'' @ CHR 0x22 # ''login'' @ CHR 0x22 # '':'' @ CHR 0x22 # ''alice''
                        @ CHR 0x22 # '','' @ CHR 0x22 # ''name'' @ CHR 0x22 # '':'' @ CHR 0x22
                        # ''Alice A'' @ CHR 0x22 # ''}''"
  have 1: "req_command ?req = ''auth status''" by simp
  have 2: "child_process ?rt = None" by (simp add: example_runtime_def)
  have 3: "?primary = \<lparr>fullCommand = [CHR 0x22] @ path (GITHUB_CLI_CONFIG getPlatform)
                      @ [CHR 0x22] @ '' auth status '' @ join '' '' (argsOf ?req),
                    fullEnv = process_env ?rt ++ envOf ?req,
                    workingDir = orElse (req_cwd ?req) (cwd (GITHUB_CLI_CONFIG getPlatform))\<rparr>"
    by (simp add: example_eval)
  have 4: "?chained = \<lparr>fullCommand = [CHR 0x22] @ path (GITHUB_CLI_CONFIG getPlatform)
                      @ [CHR 0x22] @ '' api user'',
                    fullEnv = fullEnv ?primary, workingDir = workingDir ?primary\<rparr>"
    by (simp add: example_eval)
  have 5: "execSync ?rt [] ?primary = Returned ''Logged in to github.com account alice''"
    by (simp add: example_eval)
  have 6: "execSync ?rt ([] @ [?primary]) ?chained = Returned ?text"
    by (simp add: example_eval)
  have 7: "trim ?text = ?text" by (simp add: trim_def isSpace_def)
  have 8: "JSON_parse ?rt (trim ?text)
      = Some (JObj [(''login'', JStr ''alice''), (''name'', JStr ''Alice A'')])"
    unfolding 7 using parse_alice by (simp add: example_runtime_def example_parse_def)
  have 9: "trim ''Logged in to github.com account alice'' = ''Logged in to github.com account alice''"
    by (simp add: trim_def isSpace_def)
  from auth_status_chains_identity [OF 1 2 3 4 5] 6 7 8
  have "snd (action ?rt [] ''POST'' (Inr ?req)) = [] @ [?primary, ?chained]"
    and "fst (action ?rt [] ''POST'' (Inr ?req))
              = Json \<lparr>success = True, command = ''auth status '' @ join '' '' (argsOf ?req),
                      outputText = trim ''Logged in to github.com account alice'', error = None,
                      version = None,
                      user = Some \<lparr>login = Some (JStr ''alice''),
                                   name = Some (JStr ''Alice A'')\<rparr>\<rparr>"
    by blast+
  then show ?thesis unfolding 9 by (simp add: prod_eq_iff argsOf_def)
qed

theorem identity_failure_is_absorbed_witness:
  "action (example_runtime example_cli_logged_in_only example_net) [] ''POST''
     (Inr \<lparr>req_command = ''auth status'', req_args = None, req_env = None, req_cwd = None\<rparr>)
   = (Json \<lparr>success = True, command = ''auth status '',
            outputText = ''Logged in to github.com account alice'', error = None,
            version = None, user = None\<rparr>,
      [\<lparr>fullCommand = CHR 0x22 # path (GITHUB_CLI_CONFIG windows) @ CHR 0x22 # '' auth status '',
        fullEnv = [''PATH'' \<mapsto> ''/usr/bin''], workingDir = cwd (GITHUB_CLI_CONFIG windows)\<rparr>,
       \<lparr>fullCommand = CHR 0x22 # path (GITHUB_CLI_CONFIG windows) @ CHR 0x22 # '' api user'',
        fullEnv = [''PATH'' \<mapsto> ''/usr/bin''], workingDir = cwd (GITHUB_CLI_CONFIG windows)\<rparr>])"
proof -
  let ?rt = "example_runtime example_cli_logged_in_only example_net"
  let ?req = "\<lparr>req_command = ''auth status'', req_args = None, req_env = None, req_cwd = None\<rparr>"
  let ?primary = "\<lparr>fullCommand = CHR 0x22 # path (GITHUB_CLI_CONFIG windows) @ CHR 0x22 # '' auth status '',
        fullEnv = [''PATH'' \<mapsto> ''/usr/bin''], workingDir = cwd (GITHUB_CLI_CONFIG windows)\<rparr>"
  let ?chained = "\<lparr>fullCommand = CHR 0x22 # path (GITHUB_CLI_CONFIG windows) @ CHR 0x22 # '' api user'',
        fullEnv = [''PATH'' \<mapsto> ''/usr/bin''], workingDir = cwd (GITHUB_CLI_CONFIG windows)\<rparr>"
  let ?result = "\<lparr>success = True, command = ''auth status '',
            outputText = ''Logged in to github.com account alice'', error = None,
            version = None, user = None\<rparr>"
  let ?userResult = "\<lparr>success = False, command = ''api user'', outputText = [],
            error = Some ''Command failed: gh api user'', version = None, user = None\<rparr>"
  have 1: "req_command ?req = ''auth status''" by simp
  have 2: "executeGitHubCLICommand ?rt [] ''auth status'' (argsOf ?req) (envOf ?req)
                  (req_cwd ?req) = (?result, [?primary])"
    by (simp add: example_eval example_cli_logged_in_only_def trim_def isSpace_def)
  have 3: "success ?result" by simp
  have 4: "executeGitHubCLICommand ?rt [?primary] ''api'' [''user''] (envOf ?req) (req_cwd ?req)
                   = (?userResult, [?primary, ?chained])"
    by (simp add: example_eval example_cli_logged_in_only_def)
  have 5: "\<not> success ?userResult \<or> JSON_parse ?rt (outputText ?userResult) = None" by simp
  from identity_failure_is_absorbed [OF 1 2 3 4 5] show ?thesis by simp
qed

section \<open>The status route\<close>

lemma status_failed_error:
  assumes "executeGitHubCLICommand_status rt calls cmd args env = (r, calls')"
    and "\<not> cli_success r"
  shows "\<exists>m. cli_error r = Some m \<and> m \<noteq> []"
  using assms
  by (auto simp: executeGitHubCLICommand_status_def Let_def orElse_def
      split: option.splits exec_outcome.splits if_splits prod.splits)

lemma status_user_of_object:
  "status_user_of (JObj kvs) =
     Some \<lparr>su_login = map_of kvs ''login'',
           su_name = js_or (map_of kvs ''name'') (map_of kvs ''login''),
           su_email = map_of kvs ''email''\<rparr>"
  by (simp add: status_user_of_def)

text \<open>
  C4. The three outcomes of the status route, with the results of its calls named. If the
  first call fails, the status is not installed, not authenticated, with the error of the
  failed call (which is never unset) and no version or user. If it succeeds and the
  second call fails, the status is installed, not authenticated, with the first call's
  output as version and no user, whatever the third call would give. If both succeed, the
  status is installed, authenticated, with that version, and the user read off the third
  call's output when that call succeeded and its output parses; an object always gives a
  user.
\<close>

theorem getStatus_three_states:
  assumes check: "executeGitHubCLICommand_status rt calls ''version'' [] Map.empty
                    = (checkResult, calls1)"
    and auth: "executeGitHubCLICommand_status rt calls1 ''auth'' [''status''] Map.empty
                    = (authResult, calls2)"
    and usr: "executeGitHubCLICommand_status rt calls2 ''api'' [''user''] Map.empty
                    = (userResult, calls3)"
  shows "(\<not> cli_success checkResult \<longrightarrow>
            loader rt calls = (\<lparr>isInstalled = False, isAuthenticated = False, st_version = None,
                                st_user = None, st_error = cli_error checkResult\<rparr>, calls1)
            \<and> cli_error checkResult \<noteq> None)
     \<and> (cli_success checkResult \<and> \<not> cli_success authResult \<longrightarrow>
            loader rt calls = (\<lparr>isInstalled = True, isAuthenticated = False,
                                st_version = Some (cli_output checkResult), st_user = None,
                                st_error = None\<rparr>, calls2))
     \<and> (cli_success checkResult \<and> cli_success authResult \<longrightarrow>
            loader rt calls =
              (\<lparr>isInstalled = True, isAuthenticated = True,
                st_version = Some (cli_output checkResult),
                st_user = (if cli_success userResult
                           then (case JSON_parse rt (cli_output userResult) of
                                   None \<Rightarrow> None
                                 | Some userData \<Rightarrow> status_user_of userData)
                           else None),
                st_error = None\<rparr>, calls3))
     \<and> (\<forall>kvs. status_user_of (JObj kvs) =
            Some \<lparr>su_login = map_of kvs ''login'',
                  su_name = js_or (map_of kvs ''name'') (map_of kvs ''login''),
                  su_email = map_of kvs ''email''\<rparr>)"
proof -
  have a: "loader rt calls = (\<lparr>isInstalled = False, isAuthenticated = False, st_version = None,
                                st_user = None, st_error = cli_error checkResult\<rparr>, calls1)
            \<and> cli_error checkResult \<noteq> None" if "\<not> cli_success checkResult"
  proof -
    from status_failed_error [OF check that] obtain m where
      m: "cli_error checkResult = Some m" "m \<noteq> []" by blast
    then show ?thesis using check that by (simp add: loader_def orElse_def)
  qed
  have b: "loader rt calls = (\<lparr>isInstalled = True, isAuthenticated = False,
                                st_version = Some (cli_output checkResult), st_user = None,
                                st_error = None\<rparr>, calls2)"
    if "cli_success checkResult" "\<not> cli_success authResult"
    using check auth that by (simp add: loader_def)
  have c: "loader rt calls =
              (\<lparr>isInstalled = True, isAuthenticated = True,
                st_version = Some (cli_output checkResult),
                st_user = (if cli_success userResult
                           then (case JSON_parse rt (cli_output userResult) of
                                   None \<Rightarrow> None
                                 | Some userData \<Rightarrow> status_user_of userData)
                           else None),
                st_error = None\<rparr>, calls3)"
    if "cli_success checkResult" "cli_success authResult"
    using check auth usr that by (simp add: loader_def)
  from a b c status_user_of_object show ?thesis by blast
qed

text \<open>
  C10. The status route's helper does not use its command parameter: the command line is
  the quoted path, a space and the arguments joined by spaces. So the first call of the
  route runs the executable with no arguments, and the second runs it with the single
  argument \<^verbatim>\<open>status\<close>.
\<close>

theorem status_runner_drops_command:
  assumes "child_process rt = None"
  shows "executeGitHubCLICommand_status rt calls cmd args env
           = executeGitHubCLICommand_status rt calls cmd' args env
     \<and> snd (executeGitHubCLICommand_status rt calls cmd args env)
           = calls @ [\<lparr>fullCommand = [CHR 0x22] @ path (GITHUB_CLI_CONFIG getPlatform)
                                       @ [CHR 0x22] @ '' '' @ join '' '' args,
                       fullEnv = process_env rt ++ env,
                       workingDir = cwd (GITHUB_CLI_CONFIG getPlatform)\<rparr>]
     \<and> take 1 (map fullCommand (snd (loader rt [])))
           = [[CHR 0x22] @ path (GITHUB_CLI_CONFIG getPlatform) @ [CHR 0x22] @ '' '']
     \<and> (cli_success (fst (executeGitHubCLICommand_status rt [] ''version'' [] Map.empty)) \<longrightarrow>
          take 2 (map fullCommand (snd (loader rt [])))
            = [[CHR 0x22] @ path (GITHUB_CLI_CONFIG getPlatform) @ [CHR 0x22] @ '' '',
               [CHR 0x22] @ path (GITHUB_CLI_CONFIG getPlatform) @ [CHR 0x22] @ '' status''])"
proof -
  have calls_of: "snd (executeGitHubCLICommand_status rt cs c a e)
           = cs @ [\<lparr>fullCommand = [CHR 0x22] @ path (GITHUB_CLI_CONFIG getPlatform)
                                       @ [CHR 0x22] @ '' '' @ join '' '' a,
                       fullEnv = process_env rt ++ e,
                       workingDir = cwd (GITHUB_CLI_CONFIG getPlatform)\<rparr>]" for cs c a e
    using assms
    by (simp add: executeGitHubCLICommand_status_def Let_def split: exec_outcome.splits)
  have one: "take 1 (map fullCommand (snd (loader rt [])))
           = [[CHR 0x22] @ path (GITHUB_CLI_CONFIG getPlatform) @ [CHR 0x22] @ '' '']"
    using calls_of [of "[]" "''version''" "[]" Map.empty]
      calls_of [of "snd (executeGitHubCLICommand_status rt [] ''version'' [] Map.empty)"
                   "''auth''" "[''status'']" Map.empty]
      calls_of [of "snd (executeGitHubCLICommand_status rt
                     (snd (executeGitHubCLICommand_status rt [] ''version'' [] Map.empty))
                     ''auth'' [''status''] Map.empty)" "''api''" "[''user'']" Map.empty]
    by (auto simp: loader_def split: prod.splits)
  have two: "take 2 (map fullCommand (snd (loader rt [])))
            = [[CHR 0x22] @ path (GITHUB_CLI_CONFIG getPlatform) @ [CHR 0x22] @ '' '',
               [CHR 0x22] @ path (GITHUB_CLI_CONFIG getPlatform) @ [CHR 0x22] @ '' status'']"
    if "cli_success (fst (executeGitHubCLICommand_status rt [] ''version'' [] Map.empty))"
    using that calls_of [of "[]" "''version''" "[]" Map.empty]
      calls_of [of "snd (executeGitHubCLICommand_status rt [] ''version'' [] Map.empty)"
                   "''auth''" "[''status'']" Map.empty]
      calls_of [of "snd (executeGitHubCLICommand_status rt
                     (snd (executeGitHubCLICommand_status rt [] ''version'' [] Map.empty))
                     ''auth'' [''status''] Map.empty)" "''api''" "[''user'']" Map.empty]
    by (auto simp: loader_def split: prod.splits)
  have "executeGitHubCLICommand_status rt calls cmd args env
           = executeGitHubCLICommand_status rt calls cmd' args env"
    by (simp add: executeGitHubCLICommand_status_def)
  with calls_of one two show ?thesis by blast
qed

lemmas status_eval = example_runtime_def executeGitHubCLICommand_status_def getPlatform_def
  orElse_def trim_def isSpace_def

theorem getStatus_three_states_witness:
  "fst (loader (example_runtime example_cli_missing example_net) []) =
     \<lparr>isInstalled = False, isAuthenticated = False, st_version = None, st_user = None,
      st_error = Some ''spawn gh.exe ENOENT''\<rparr>
   \<and> fst (loader (example_runtime example_cli_logged_out example_net) []) =
     \<lparr>isInstalled = True, isAuthenticated = False,
      st_version = Some ''Work seamlessly with GitHub'', st_user = None, st_error = None\<rparr>
   \<and> fst (loader (example_runtime example_cli_status example_net) []) =
     \<lparr>isInstalled = True, isAuthenticated = True,
      st_version = Some ''Work seamlessly with GitHub'',
      st_user = Some \<lparr>su_login = Some (JStr ''alice''), su_name = Some (JStr ''Alice A''),
                       su_email = None\<rparr>,
      st_error = None\<rparr>"
proof -
  let ?gh = "CHR 0x22 # path (GITHUB_CLI_CONFIG windows) @ [CHR 0x22]"
  let ?env = "[''PATH'' \<mapsto> ''/usr/bin'']"
  let ?dir = "cwd (GITHUB_CLI_CONFIG windows)"
  let ?c1 = "\<lparr>fullCommand = ?gh @ '' '', fullEnv = ?env, workingDir = ?dir\<rparr>"
  let ?c2 = "\<lparr>fullCommand = ?gh @ '' status'', fullEnv = ?env, workingDir = ?dir\<rparr>"
  let ?c3 = "\<lparr>fullCommand = ?gh @ '' user'', fullEnv = ?env, workingDir = ?dir\<rparr>"
  let ?text = "''{'' @ CHR 0x22 # ''login'' @ CHR 0x22 # '':'' @ CHR 0x22 # ''alice''
                        @ CHR 0x22 # '','' @ CHR 0x22 # ''name'' @ CHR 0x22 # '':'' @ CHR 0x22
                        # ''Alice A'' @ CHR 0x22 # ''}''"
  let ?enoent = "\<lparr>cli_success = False, cli_output = [], cli_error = Some ''spawn gh.exe ENOENT''\<rparr>"
  let ?banner = "\<lparr>cli_success = True, cli_output = ''Work seamlessly with GitHub'', cli_error = None\<rparr>"
  let ?denied = "\<lparr>cli_success = False, cli_output = ''You are not logged into any GitHub hosts'',
                   cli_error = Some ''Command failed''\<rparr>"
  let ?issues = "\<lparr>cli_success = True, cli_output = ''Assigned Issues'', cli_error = None\<rparr>"
  let ?alice = "\<lparr>cli_success = True, cli_output = ?text, cli_error = None\<rparr>"
  let ?A = "example_runtime example_cli_missing example_net"
  let ?B = "example_runtime example_cli_logged_out example_net"
  let ?C = "example_runtime example_cli_status example_net"
  have a1: "executeGitHubCLICommand_status ?A [] ''version'' [] Map.empty = (?enoent, [?c1])"
    by (simp add: status_eval example_cli_missing_def)
  have a2: "executeGitHubCLICommand_status ?A [?c1] ''auth'' [''status''] Map.empty
              = (?enoent, [?c1, ?c2])"
    by (simp add: status_eval example_cli_missing_def)
  have a3: "executeGitHubCLICommand_status ?A [?c1, ?c2] ''api'' [''user''] Map.empty
              = (?enoent, [?c1, ?c2, ?c3])"
    by (simp add: status_eval example_cli_missing_def)
  have b1: "executeGitHubCLICommand_status ?B [] ''version'' [] Map.empty = (?banner, [?c1])"
    by (simp add: status_eval example_cli_logged_out_def)
  have b2: "executeGitHubCLICommand_status ?B [?c1] ''auth'' [''status''] Map.empty
              = (?denied, [?c1, ?c2])"
    by (simp add: status_eval example_cli_logged_out_def)
  have b3: "executeGitHubCLICommand_status ?B [?c1, ?c2] ''api'' [''user''] Map.empty
              = (?denied, [?c1, ?c2, ?c3])"
    by (simp add: status_eval example_cli_logged_out_def)
  have c1: "executeGitHubCLICommand_status ?C [] ''version'' [] Map.empty = (?banner, [?c1])"
    by (simp add: status_eval example_cli_status_def)
  have c2: "executeGitHubCLICommand_status ?C [?c1] ''auth'' [''status''] Map.empty
              = (?issues, [?c1, ?c2])"
    by (simp add: status_eval example_cli_status_def)
  have c3: "executeGitHubCLICommand_status ?C [?c1, ?c2] ''api'' [''user''] Map.empty
              = (?alice, [?c1, ?c2, ?c3])"
    by (simp add: status_eval example_cli_status_def)
  have parse: "JSON_parse ?C ?text
      = Some (JObj [(''login'', JStr ''alice''), (''name'', JStr ''Alice A'')])"
    using parse_alice by (simp add: example_runtime_def example_parse_def)
  have "fst (loader ?A []) =
     \<lparr>isInstalled = False, isAuthenticated = False, st_version = None, st_user = None,
      st_error = Some ''spawn gh.exe ENOENT''\<rparr>"
    using getStatus_three_states [OF a1 a2 a3] by simp
  moreover have "fst (loader ?B []) =
     \<lparr>isInstalled = True, isAuthenticated = False,
      st_version = Some ''Work seamlessly with GitHub'', st_user = None, st_error = None\<rparr>"
    using getStatus_three_states [OF b1 b2 b3] by simp
  moreover have "fst (loader ?C []) =
     \<lparr>isInstalled = True, isAuthenticated = True,
      st_version = Some ''Work seamlessly with GitHub'',
      st_user = Some \<lparr>su_login = Some (JStr ''alice''), su_name = Some (JStr ''Alice A''),
                       su_email = None\<rparr>,
      st_error = None\<rparr>"
    using getStatus_three_states [OF c1 c2 c3] parse by (simp add: js_or_def)
  ultimately show ?thesis by blast
qed

theorem status_runner_drops_command_witness:
  "child_process (example_runtime example_cli_status example_net) = None
   \<and> executeGitHubCLICommand_status (example_runtime example_cli_status example_net) []
        ''auth'' [''status''] Map.empty
      = executeGitHubCLICommand_status (example_runtime example_cli_status example_net) []
        ''version'' [''status''] Map.empty
   \<and> map fullCommand (snd (executeGitHubCLICommand_status
         (example_runtime example_cli_status example_net) [] ''auth'' [''status''] Map.empty))
      = [CHR 0x22 # path (GITHUB_CLI_CONFIG windows) @ CHR 0x22 # '' status'']
   \<and> take 2 (map fullCommand (snd (loader (example_runtime example_cli_status example_net) [])))
      = [CHR 0x22 # path (GITHUB_CLI_CONFIG windows) @ CHR 0x22 # '' '',
         CHR 0x22 # path (GITHUB_CLI_CONFIG windows) @ CHR 0x22 # '' status'']"
proof -
  let ?C = "example_runtime example_cli_status example_net"
  have h: "child_process ?C = None" by (simp add: example_runtime_def)
  have ok: "cli_success (fst (executeGitHubCLICommand_status ?C [] ''version'' [] Map.empty))"
    by (simp add: status_eval example_cli_status_def)
  note t = status_runner_drops_command [OF h, of "[]" "''auth''" "[''status'']" Map.empty "''version''"]
  have A: "executeGitHubCLICommand_status ?C [] ''auth'' [''status''] Map.empty
      = executeGitHubCLICommand_status ?C [] ''version'' [''status''] Map.empty"
    using t by (rule conjunct1)
  have B: "map fullCommand (snd (executeGitHubCLICommand_status ?C [] ''auth'' [''status''] Map.empty))
      = [CHR 0x22 # path (GITHUB_CLI_CONFIG windows) @ CHR 0x22 # '' status'']"
    using t [THEN conjunct2, THEN conjunct1] by (simp add: getPlatform_def)
  have D: "take 2 (map fullCommand (snd (loader ?C [])))
      = [CHR 0x22 # path (GITHUB_CLI_CONFIG windows) @ CHR 0x22 # '' '',
         CHR 0x22 # path (GITHUB_CLI_CONFIG windows) @ CHR 0x22 # '' status'']"
    using t [THEN conjunct2, THEN conjunct2, THEN conjunct2] ok by (simp add: getPlatform_def)
  show ?thesis
    by (rule conjI [OF h conjI [OF A conjI [OF B D]]])
qed

section \<open>The settings store\<close>

lemma updateSettings_start_sets_flag:
  "updateSettings_start rt s c = (Awaiting req, c') \<Longrightarrow>
     \<not> isUpdatingConfig (store c)
     \<and> c' = c\<lparr>store := (store c)\<lparr>isUpdatingConfig := True\<rparr>, requests := requests c @ [req]\<rparr>
     \<and> (\<exists>config. getProp s ''mcpConfig'' = Some config
            \<and> req = updateServerConfig_request rt config)"
  by (auto simp: updateSettings_start_def Let_def setStore_def split: if_splits option.splits)

text \<open>
  C5. A call of \<^verbatim>\<open>updateSettings\<close> on a store whose update flag is set returns at
  once and leaves the store, \<^verbatim>\<open>localStorage\<close> and the list of requests as they are.
  So when a first call has passed its request to \<^verbatim>\<open>fetch\<close> and waits, the flag is
  set, a second call (with any settings, on any runtime) changes nothing, and the first
  call then ends in the state it would have ended in alone.
\<close>

theorem updateSettings_single_flight:
  "(isUpdatingConfig (store c) \<longrightarrow>
      updateSettings_start rt s2 c = (Finished (Inr ()), c) \<and> updateSettings rt s2 c = (Inr (), c))
   \<and> (updateSettings_start rt s1 c0 = (Awaiting req, c1) \<longrightarrow>
        isUpdatingConfig (store c1)
        \<and> updateSettings rt' s2 c1 = (Inr (), c1)
        \<and> updateSettings_settle rt s1 (fetch rt req) (snd (updateSettings rt' s2 c1))
            = updateSettings rt s1 c0)"
proof -
  have guard: "updateSettings_start r s c' = (Finished (Inr ()), c') \<and> updateSettings r s c' = (Inr (), c')"
    if "isUpdatingConfig (store c')" for r s c'
    using that by (simp add: updateSettings_def updateSettings_start_def)
  have "isUpdatingConfig (store c1)
        \<and> updateSettings rt' s2 c1 = (Inr (), c1)
        \<and> updateSettings_settle rt s1 (fetch rt req) (snd (updateSettings rt' s2 c1))
            = updateSettings rt s1 c0"
    if start: "updateSettings_start rt s1 c0 = (Awaiting req, c1)"
  proof -
    from updateSettings_start_sets_flag [OF start] have busy: "isUpdatingConfig (store c1)"
      by simp
    from guard [OF busy] have second: "updateSettings rt' s2 c1 = (Inr (), c1)" by simp
    have "updateSettings rt s1 c0 = updateSettings_settle rt s1 (fetch rt req) c1"
      using start by (simp add: updateSettings_def)
    with busy second show ?thesis by simp
  qed
  with guard show ?thesis by blast
qed

theorem updateSettings_single_flight_witness:
  "isUpdatingConfig (store example_client_updating)
   \<and> updateSettings (example_runtime example_cli example_net) (JObj [(''mcpConfig'', JObj [])])
        example_client_updating = (Inr (), example_client_updating)
   \<and> updateSettings_start (example_runtime example_cli example_net) defaultSettings example_client
       = (Awaiting (updateServerConfig_request (example_runtime example_cli example_net)
                      (Some (JObj [(''mcpServers'', JObj [])]))),
          example_client_updating\<lparr>requests :=
            [updateServerConfig_request (example_runtime example_cli example_net)
               (Some (JObj [(''mcpServers'', JObj [])]))]\<rparr>)
   \<and> updateSettings_settle (example_runtime example_cli example_net) defaultSettings
        (example_net (updateServerConfig_request (example_runtime example_cli example_net)
                      (Some (JObj [(''mcpServers'', JObj [])]))))
        (snd (updateSettings (example_runtime example_cli example_net_down)
                (JObj [(''mcpConfig'', JObj [])])
                (example_client_updating\<lparr>requests :=
                   [updateServerConfig_request (example_runtime example_cli example_net)
                      (Some (JObj [(''mcpServers'', JObj [])]))]\<rparr>)))
       = updateSettings (example_runtime example_cli example_net) defaultSettings example_client"
proof -
  let ?rt = "example_runtime example_cli example_net"
  let ?req = "updateServerConfig_request ?rt (Some (JObj [(''mcpServers'', JObj [])]))"
  let ?c1 = "example_client_updating\<lparr>requests := [?req]\<rparr>"
  have busy: "isUpdatingConfig (store example_client_updating)"
    by (simp add: example_client_updating_def)
  have start: "updateSettings_start ?rt defaultSettings example_client = (Awaiting ?req, ?c1)"
    by (simp add: updateSettings_start_def example_client_def example_client_updating_def
        initialStore_def defaultSettings_def setStore_def Let_def)
  have net: "fetch ?rt ?req = example_net ?req" by (simp add: example_runtime_def)
  note a = updateSettings_single_flight [of example_client_updating ?rt
      "JObj [(''mcpConfig'', JObj [])]" defaultSettings example_client ?req ?c1
      "example_runtime example_cli example_net_down", THEN conjunct1, rule_format, OF busy,
      THEN conjunct2]
  note b = updateSettings_single_flight [of example_client_updating ?rt
      "JObj [(''mcpConfig'', JObj [])]" defaultSettings example_client ?req ?c1
      "example_runtime example_cli example_net_down", THEN conjunct2, rule_format, OF start,
      THEN conjunct2, THEN conjunct2, unfolded net]
  show ?thesis
    by (rule conjI [OF busy conjI [OF a conjI [OF start b]]])
qed

lemma clear_flag_id:
  "\<not> isUpdatingConfig (store c) \<Longrightarrow>
     c\<lparr>store := (store c)\<lparr>isUpdatingConfig := False\<rparr>\<rparr> = c"
  by simp

text \<open>
  C6, as the specification words it, fails on the early return: a call that finds the flag
  set returns with the flag still set.
\<close>

theorem updateSettings_guard_keeps_flag:
  "fst (updateSettings (example_runtime example_cli example_net) defaultSettings
          example_client_updating) = Inr ()
   \<and> isUpdatingConfig (store (snd (updateSettings (example_runtime example_cli example_net)
          defaultSettings example_client_updating)))"
  by (simp add: updateSettings_def updateSettings_start_def example_client_updating_def)

text \<open>
  C6, amended. A call of \<^verbatim>\<open>updateSettings\<close> on a store whose update flag is clear:
  if the discovery request fails, the call throws that failure and the state is the one
  before the call with the request added to the list of requests, so the settings, the
  server tools and \<^verbatim>\<open>localStorage\<close> are untouched; and however the call ends, the
  flag is clear afterwards.
\<close>

theorem updateSettings_failure_keeps_settings:
  assumes idle: "\<not> isUpdatingConfig (store c)"
  shows "(\<forall>config msg. getProp s ''mcpConfig'' = Some config
              \<and> updateServerConfig rt config = Inl msg \<longrightarrow>
            updateSettings rt s c
              = (Inl msg, c\<lparr>requests := requests c @ [updateServerConfig_request rt config]\<rparr>))
     \<and> \<not> isUpdatingConfig (store (snd (updateSettings rt s c)))"
proof -
  have failing: "updateSettings rt s c
              = (Inl msg, c\<lparr>requests := requests c @ [updateServerConfig_request rt config]\<rparr>)"
    if "getProp s ''mcpConfig'' = Some config" "updateServerConfig rt config = Inl msg"
    for config msg
    using that idle
    by (simp add: updateSettings_def updateSettings_start_def updateSettings_settle_def
        updateServerConfig_def setStore_def Let_def)
  have cleared: "\<not> isUpdatingConfig (store (snd (updateSettings rt s c)))"
    using idle
    by (simp add: updateSettings_def updateSettings_start_def updateSettings_settle_def
        setStore_def setItem_def Let_def split: option.splits sum.splits)
  from failing cleared show ?thesis by blast
qed

theorem updateSettings_failure_keeps_settings_witness:
  "\<not> isUpdatingConfig (store example_client)
   \<and> updateSettings (example_runtime example_cli example_net_down) defaultSettings example_client
      = (Inl ''Failed to fetch'',
         example_client\<lparr>requests :=
           [\<lparr>url = ''/api/mcp-update-config'', httpMethod = ''POST'',
             headers = [(''Content-Type'', ''application/json'')],
             body = Some (''{'' @ CHR 0x22 # ''mcpServers'' @ CHR 0x22 # '':{}}'')\<rparr>]\<rparr>)"
proof -
  let ?rt = "example_runtime example_cli example_net_down"
  have idle: "\<not> isUpdatingConfig (store example_client)"
    by (simp add: example_client_def initialStore_def)
  have cfg: "getProp defaultSettings ''mcpConfig'' = Some (Some (JObj [(''mcpServers'', JObj [])]))"
    by (simp add: defaultSettings_def)
  have down: "updateServerConfig ?rt (Some (JObj [(''mcpServers'', JObj [])])) = Inl ''Failed to fetch''"
    by (simp add: updateServerConfig_def updateServerConfig_settle_def example_runtime_def
        example_net_down_def)
  from updateSettings_failure_keeps_settings [OF idle, of defaultSettings ?rt] cfg down
  have "updateSettings ?rt defaultSettings example_client
      = (Inl ''Failed to fetch'', example_client\<lparr>requests := requests example_client
           @ [updateServerConfig_request ?rt (Some (JObj [(''mcpServers'', JObj [])]))]\<rparr>)"
    by blast
  then show ?thesis
    using idle
    by (simp add: updateServerConfig_request_def example_runtime_def example_client_def
        example_stringify_def quoteJSONString_def quoteChar_def)
qed

section \<open>The JSON model: numbers\<close>
















text \<open>Where the model is silent: an integer that is not safe, written or read.\<close>

lemma stringify_unsafe: "stringify (JNum 1152921504606846976) = None"
  by (simp add: numberToString_def maxSafeInteger_def)

lemma parseJSON_unsafe: "parseJSON ''9007199254740993'' = Unmodelled"
  by code_simp

lemma parseJSON_fraction: "parseJSON ''1.5'' = Unmodelled"
  by code_simp


section \<open>The JSON model: strings\<close>










section \<open>The JSON model: objects\<close>






section \<open>The JSON model: values\<close>



















section \<open>The JSON model: the counter is large enough\<close>

lemma mapParsed_Ok: "mapParsed f p = Ok y r \<longleftrightarrow> (\<exists>x. p = Ok x r \<and> y = f x)"
  by (cases p) auto

lemma mapParsed_More: "mapParsed f p = More \<longleftrightarrow> p = More"
  by (cases p) auto

lemma skipSpace_length: "length (skipSpace s) \<le> length s"
  by (simp add: skipSpace_def length_dropWhile_le)

lemma skipSpace_Cons_length: "skipSpace s = c # cs \<Longrightarrow> length cs < length s"
  using skipSpace_length [of s] by simp

lemma parseChars_length: "parseChars s = Ok str rest \<Longrightarrow> length rest < length s"
proof (induction s arbitrary: str rest rule: parseChars.induct)
  case 1
  then show ?case by (simp add: parseChars.simps)
next
  case (2 c cs)
  show ?case
  proof (cases "c = CHR 0x22")
    case True
    with "2.prems" show ?thesis by (simp add: parseChars.simps)
  next
    case quote: False
    show ?thesis
    proof (cases "c = CHR 0x5C")
      case True
      show ?thesis
      proof (cases cs)
        case Nil
        with "2.prems" quote True show ?thesis by (simp add: parseChars.simps)
      next
        case (Cons e es)
        show ?thesis
        proof (cases "e = CHR ''u''")
          case u: True
          from "2.prems" quote True Cons u obtain n str' where
            n: "hex4 es = Some n" "n < 256" and r: "parseChars (drop 4 es) = Ok str' rest"
            by (subst (asm) parseChars.simps)
              (auto simp: mapParsed_Ok split: option.splits if_splits)
          from "2.IH"(1) [OF quote True Cons u n(1) n(2) r]
          have "length rest < length (drop 4 es)" .
          then show ?thesis using Cons by simp
        next
          case nu: False
          from "2.prems" quote True Cons nu obtain x str' where
            x: "unescape e = Some x" and r: "parseChars es = Ok str' rest"
            by (subst (asm) parseChars.simps)
              (auto simp: mapParsed_Ok split: option.splits if_splits)
          from "2.IH"(2) [OF quote True Cons nu x r]
          have "length rest < length es" .
          then show ?thesis using Cons by simp
        qed
      qed
    next
      case False
      from "2.prems" quote False obtain str' where
        c: "\<not> (of_char c :: nat) < 32" and r: "parseChars cs = Ok str' rest"
        by (subst (asm) parseChars.simps)
          (auto simp: mapParsed_Ok split: option.splits if_splits simp del: of_char_Char)
      from "2.IH"(3) [OF quote False c r] show ?thesis by simp
    qed
  qed
qed

lemma parseChars_not_More: "parseChars s \<noteq> More"
proof (induction s rule: parseChars.induct)
  case 1
  show ?case by (simp add: parseChars.simps)
next
  case (2 c cs)
  show ?case
    using 2
    by (subst parseChars.simps)
      (auto simp: mapParsed_More split: list.splits option.splits simp del: of_char_Char)
qed

lemma parseNumber_length: "parseNumber s = Ok i rest \<Longrightarrow> length rest < length s"
  by (cases s) (auto simp: parseNumber_def Let_def split: if_splits)

lemma parseNumber_not_More: "parseNumber s \<noteq> More"
  by (auto simp: parseNumber_def Let_def)

lemma parse_consumes:
  "(parseValue n s = Ok v rest \<longrightarrow> length rest < length s)"
  "(parseElements n s = Ok vs rest1 \<longrightarrow> length rest1 < length s)"
  "(parseMembers n s = Ok kvs rest2 \<longrightarrow> length rest2 < length s)"
proof (induction n arbitrary: s v rest vs rest1 kvs rest2)
  case 0
  {
    case 1 show ?case by simp
  next
    case 2 show ?case by simp
  next
    case 3 show ?case by simp
  }
next
  case (Suc n)
  {
    case 1
    show ?case
    proof
      assume p: "parseValue (Suc n) s = Ok v rest"
      then obtain c cs where s: "skipSpace s = c # cs"
        by (cases "skipSpace s") auto
      have len: "length cs < length s" using s by (rule skipSpace_Cons_length)
      have "length rest \<le> length cs"
      proof (cases "c = CHR 0x22")
        case True
        with p s obtain str where "parseChars cs = Ok str rest"
          by (auto simp: mapParsed_Ok)
        then show ?thesis using parseChars_length by fastforce
      next
        case q: False
        show ?thesis
        proof (cases "c = CHR ''[''")
          case True
          show ?thesis
          proof (cases "skipSpace cs \<noteq> [] \<and> hd (skipSpace cs) = CHR '']''")
            case True
            with p s q \<open>c = CHR ''[''\<close> have "rest = tl (skipSpace cs)" by simp
            then show ?thesis using skipSpace_length [of cs] by simp
          next
            case False
            with p s q \<open>c = CHR ''[''\<close> obtain xs where "parseElements n cs = Ok xs rest"
              by (auto simp: mapParsed_Ok)
            with Suc(2) show ?thesis by fastforce
          qed
        next
          case b: False
          show ?thesis
          proof (cases "c = CHR ''{''")
            case True
            show ?thesis
            proof (cases "skipSpace cs \<noteq> [] \<and> hd (skipSpace cs) = CHR ''}''")
              case True
              with p s q b \<open>c = CHR ''{''\<close> have "rest = tl (skipSpace cs)" by simp
              then show ?thesis using skipSpace_length [of cs] by simp
            next
              case False
              with p s q b \<open>c = CHR ''{''\<close> obtain xs where "parseMembers n cs = Ok xs rest"
                by (auto simp: mapParsed_Ok)
              with Suc(3) show ?thesis by fastforce
            qed
          next
            case o: False
            have "rest = drop 4 (c # cs) \<or> rest = drop 5 (c # cs)
                \<or> (\<exists>i. parseNumber (c # cs) = Ok i rest)"
              using p s q b o by (auto simp: mapParsed_Ok split: if_splits)
            then show ?thesis using parseNumber_length by fastforce
          qed
        qed
      qed
      with len show "length rest < length s" by simp
    qed
  next
    case 2
    show ?case
    proof
      assume p: "parseElements (Suc n) s = Ok vs rest1"
      then obtain x r where x: "parseValue n s = Ok x r"
        by (auto split: parsed.splits)
      with Suc(1) have r: "length r < length s" by blast
      from p x obtain d r' where d: "skipSpace r = d # r'"
        by (cases "skipSpace r") auto
      have r': "length r' < length r" using d by (rule skipSpace_Cons_length)
      have "length rest1 \<le> length r'"
      proof (cases "d = CHR '']''")
        case True
        with p x d show ?thesis by simp
      next
        case False
        with p x d obtain xs where "parseElements n r' = Ok xs rest1"
          by (auto simp: mapParsed_Ok split: if_splits)
        with Suc(2) show ?thesis by fastforce
      qed
      with r r' show "length rest1 < length s" by simp
    qed
  next
    case 3
    show ?case
    proof
      assume p: "parseMembers (Suc n) s = Ok kvs rest2"
      then obtain q cs where s: "skipSpace s = q # cs" by (cases "skipSpace s") auto
      have l0: "length cs < length s" using s by (rule skipSpace_Cons_length)
      from p s have q: "q = CHR 0x22" by (auto split: if_splits)
      from p s q obtain k r where k: "parseChars cs = Ok k r"
        by (auto split: parsed.splits)
      then have l1: "length r < length cs" by (rule parseChars_length)
      from p s q k obtain colon r1 where c: "skipSpace r = colon # r1"
        by (cases "skipSpace r") auto
      have l2: "length r1 < length r" using c by (rule skipSpace_Cons_length)
      from p s q k c have colon: "colon = CHR '':''" by (auto split: if_splits)
      from p s q k c colon obtain x r2 where x: "parseValue n r1 = Ok x r2"
        by (auto split: parsed.splits)
      with Suc(1) have l3: "length r2 < length r1" by blast
      from p s q k c colon x obtain d r3 where d: "skipSpace r2 = d # r3"
        by (cases "skipSpace r2") auto
      have l4: "length r3 < length r2" using d by (rule skipSpace_Cons_length)
      have "length rest2 \<le> length r3"
      proof (cases "d = CHR ''}''")
        case True
        with p s q k c colon x d show ?thesis by simp
      next
        case False
        with p s q k c colon x d obtain xs where "parseMembers n r3 = Ok xs rest2"
          by (auto simp: mapParsed_Ok split: if_splits)
        with Suc(3) show ?thesis by fastforce
      qed
      with l0 l1 l2 l3 l4 show "length rest2 < length s" by simp
    qed
  }
qed

lemma parse_never_More:
  "2 * length s < n \<longrightarrow> parseValue n s \<noteq> More"
  "2 * length s + 1 < n \<longrightarrow> parseElements n s \<noteq> More"
  "2 * length s + 1 < n \<longrightarrow> parseMembers n s \<noteq> More"
proof (induction n arbitrary: s)
  case 0
  {
    case 1 show ?case by simp
  next
    case 2 show ?case by simp
  next
    case 3 show ?case by simp
  }
next
  case (Suc n)
  {
    case 1
    show ?case
    proof (intro impI notI)
      assume fuel: "2 * length s < Suc n" and p: "parseValue (Suc n) s = More"
      then obtain c cs where s: "skipSpace s = c # cs"
        by (cases "skipSpace s") auto
      have len: "length cs < length s" using s by (rule skipSpace_Cons_length)
      from p s have "parseElements n cs = More \<or> parseMembers n cs = More"
        using parseChars_not_More [of cs] parseNumber_not_More [of "c # cs"]
        by (auto simp: mapParsed_More split: if_splits)
      moreover have "2 * length cs + 1 < n" using fuel len by simp
      ultimately show False using Suc(2) Suc(3) by blast
    qed
  next
    case 2
    show ?case
    proof (intro impI notI)
      assume fuel: "2 * length s + 1 < Suc n" and p: "parseElements (Suc n) s = More"
      have first: "parseValue n s \<noteq> More" using fuel Suc(1) by simp
      with p obtain x r where x: "parseValue n s = Ok x r"
        by (auto split: parsed.splits)
      have r: "length r < length s" using parse_consumes(1) x by blast
      from p x obtain d r' where d: "skipSpace r = d # r'"
        by (cases "skipSpace r") auto
      have r': "length r' < length r" using d by (rule skipSpace_Cons_length)
      from p x d have "parseElements n r' = More"
        by (auto simp: mapParsed_More split: if_splits)
      moreover have "2 * length r' + 1 < n" using fuel r r' by simp
      ultimately show False using Suc(2) by blast
    qed
  next
    case 3
    show ?case
    proof (intro impI notI)
      assume fuel: "2 * length s + 1 < Suc n" and p: "parseMembers (Suc n) s = More"
      then obtain q cs where s: "skipSpace s = q # cs" by (cases "skipSpace s") auto
      have l0: "length cs < length s" using s by (rule skipSpace_Cons_length)
      from p s have q: "q = CHR 0x22" by (auto split: if_splits)
      from p s q obtain k r where k: "parseChars cs = Ok k r"
        using parseChars_not_More [of cs] by (auto split: parsed.splits)
      then have l1: "length r < length cs" by (rule parseChars_length)
      from p s q k obtain colon r1 where c: "skipSpace r = colon # r1"
        by (cases "skipSpace r") auto
      have l2: "length r1 < length r" using c by (rule skipSpace_Cons_length)
      from p s q k c have colon: "colon = CHR '':''" by (auto split: if_splits)
      have "parseValue n r1 \<noteq> More" using fuel l0 l1 l2 Suc(1) by simp
      with p s q k c colon obtain x r2 where x: "parseValue n r1 = Ok x r2"
        by (auto split: parsed.splits)
      have l3: "length r2 < length r1" using parse_consumes(1) x by blast
      from p s q k c colon x obtain d r3 where d: "skipSpace r2 = d # r3"
        by (cases "skipSpace r2") auto
      have l4: "length r3 < length r2" using d by (rule skipSpace_Cons_length)
      from p s q k c colon x d have "parseMembers n r3 = More"
        by (auto simp: mapParsed_More split: if_splits)
      moreover have "2 * length r3 + 1 < n" using fuel l0 l1 l2 l3 l4 by simp
      ultimately show False using Suc(3) by blast
    qed
  }
qed

lemma parseJSON_counter: "parseValue (2 * length s + 1) s \<noteq> More"
  using parse_never_More(1) [of s "2 * length s + 1"] by simp

section \<open>Settings\<close>



lemma initialize_keeps_settings_when_discovery_fails:
  assumes "isBrowser rt" and "\<not> isInitialized (store c)"
    and "localStorage c MCP_SETTINGS_KEY = Some t" and "t \<noteq> []"
    and "JSON_parse rt t = Some s" and "getProp s ''mcpConfig'' = Some cfg"
    and "updateServerConfig rt cfg = Inl msg"
  shows "settings (store (initialize rt c)) = settings (store c)
     \<and> lastError (store (initialize rt c)) = Some (''Error parsing saved mcp config: '' @ msg)"
  using assms by (simp add: initialize_def orElse_def setStore_def Let_def)





end
